theory Spec2Isabelle
  imports Main "HOL-Library.Log_Nat" "HOL-Library.Sublist"
begin

section \<open>Binary64 arithmetic\<close>

text \<open>
  Every number of the script is a Python or NumPy float, that is an IEEE 754 binary64 value:
  a finite value, one of the two infinities, or NaN. A finite value is modelled by the
  rational it denotes, and an arithmetic operation on finite values first computes the exact
  rational result and then rounds it to the nearest binary64 value, ties to the even
  significand (\<open>fl\<close>). The significand has 53 bits; below \<open>2 powi (- 1022)\<close> the spacing stays
  that of the subnormal numbers.
\<close>

definition rne :: "rat \<Rightarrow> int" where
  "rne x = (let f = \<lfloor>x\<rfloor>; r = x - of_int f in
     if r < 1/2 then f else if 1/2 < r then f + 1 else if even f then f else f + 1)"

definition ilog2 :: "rat \<Rightarrow> int" where
  "ilog2 x = (case quotient_of x of (p, q) \<Rightarrow>
     let d = bitlen p - bitlen q in if 2 powi d \<le> x then d else d - 1)"

definition expo :: "rat \<Rightarrow> int" where
  "expo a = max (ilog2 a) (- 1022)"

definition ulp :: "rat \<Rightarrow> rat" where
  "ulp a = 2 powi (expo a - 52)"

definition fl :: "rat \<Rightarrow> rat" where
  "fl x = (if x = 0 then 0 else sgn x * of_int (rne (\<bar>x\<bar> / ulp \<bar>x\<bar>)) * ulp \<bar>x\<bar>)"

text \<open>The operations on finite values whose result is finite.\<close>

definition fadd :: "rat \<Rightarrow> rat \<Rightarrow> rat" where
  "fadd a b = fl (a + b)"

definition fsub :: "rat \<Rightarrow> rat \<Rightarrow> rat" where
  "fsub a b = fl (a - b)"

definition fmul :: "rat \<Rightarrow> rat \<Rightarrow> rat" where
  "fmul a b = fl (a * b)"

definition fdiv :: "rat \<Rightarrow> rat \<Rightarrow> rat" where
  "fdiv a b = fl (a / b)"

text \<open>
  A format specification \<open>.nf\<close> prints the decimal with \<open>n\<close> fractional digits nearest to
  the exact value of the float, ties to even.
\<close>

definition round_dec :: "nat \<Rightarrow> rat \<Rightarrow> rat" where
  "round_dec n x = of_int (rne (x * 10 ^ n)) / 10 ^ n"

text \<open>
  A float, and so a cell of a float64 column, where pandas stores a missing entry as NaN.
  The two zeros are identified: they compare equal, and every divisor of the script is a
  constant other than zero.
\<close>

datatype cell = Num rat | PInf | NInf | NaN

text \<open>
  The result of an operation whose exact value is \<open>x\<close>: the rounded value, or an infinity
  when the rounded value lies beyond the largest finite binary64 value, which is
  \<open>2 ^ 1024 - 2 ^ 971\<close>.
\<close>

definition rnd :: "rat \<Rightarrow> cell" where
  "rnd x = (let y = fl x in
     if 2 ^ 1024 \<le> y then PInf else if y \<le> - (2 ^ 1024) then NInf else Num y)"

fun sign_of :: "cell \<Rightarrow> int" where
  "sign_of (Num a) = (if a < 0 then - 1 else if a = 0 then 0 else 1)"
| "sign_of PInf = 1"
| "sign_of NInf = - 1"
| "sign_of NaN = 0"

definition signed_inf :: "int \<Rightarrow> cell" where
  "signed_inf k = (if k = 0 then NaN else if 0 < k then PInf else NInf)"

fun cmul :: "cell \<Rightarrow> cell \<Rightarrow> cell" where
  "cmul (Num a) (Num b) = rnd (a * b)"
| "cmul NaN b = NaN"
| "cmul a NaN = NaN"
| "cmul a b = signed_inf (sign_of a * sign_of b)"

fun cadd :: "cell \<Rightarrow> cell \<Rightarrow> cell" where
  "cadd (Num a) (Num b) = rnd (a + b)"
| "cadd NaN b = NaN"
| "cadd a NaN = NaN"
| "cadd PInf NInf = NaN"
| "cadd NInf PInf = NaN"
| "cadd PInf b = PInf"
| "cadd a PInf = PInf"
| "cadd NInf b = NInf"
| "cadd a NInf = NInf"

fun cneg :: "cell \<Rightarrow> cell" where
  "cneg (Num a) = Num (- a)"
| "cneg PInf = NInf"
| "cneg NInf = PInf"
| "cneg NaN = NaN"

definition csub :: "cell \<Rightarrow> cell \<Rightarrow> cell" where
  "csub a b = cadd a (cneg b)"

text \<open>Division as NumPy performs it: a division by zero gives an infinity or NaN.\<close>

fun cdiv :: "cell \<Rightarrow> cell \<Rightarrow> cell" where
  "cdiv (Num a) (Num b) = (if b = 0 then signed_inf (sign_of (Num a)) else rnd (a / b))"
| "cdiv NaN b = NaN"
| "cdiv a NaN = NaN"
| "cdiv (Num a) b = Num 0"
| "cdiv a (Num b) = signed_inf (sign_of a * (if b < 0 then - 1 else 1))"
| "cdiv a b = NaN"

fun cabs :: "cell \<Rightarrow> cell" where
  "cabs (Num a) = Num \<bar>a\<bar>"
| "cabs PInf = PInf"
| "cabs NInf = PInf"
| "cabs NaN = NaN"

text \<open>The comparison \<open>c > k\<close> with a finite constant.\<close>

fun cgt :: "cell \<Rightarrow> rat \<Rightarrow> bool" where
  "cgt (Num a) k = (k < a)"
| "cgt PInf k = True"
| "cgt NInf k = False"
| "cgt NaN k = False"

text \<open>What a format \<open>.nf\<close> prints: a decimal, or \<open>inf\<close>, \<open>-inf\<close>, \<open>nan\<close>.\<close>

fun cfmt :: "nat \<Rightarrow> cell \<Rightarrow> cell" where
  "cfmt n (Num a) = Num (round_dec n a)"
| "cfmt n c = c"

section \<open>Tables\<close>

text \<open>\<open>pd.notna\<close>: an infinity is not a missing value.\<close>

fun notna :: "cell \<Rightarrow> bool" where
  "notna NaN = False"
| "notna c = True"

text \<open>\<open>c if pd.notna(c) else d\<close>.\<close>

definition cell_or :: "cell \<Rightarrow> cell \<Rightarrow> cell" where
  "cell_or c d = (if notna c then c else d)"

text \<open>
  One row of the majors table: the columns the script reads. The oxide columns are float64
  columns, and the table has all of these columns but possibly \<open>ROCKTYPE\<close>, which the script
  reads with a default.
\<close>

record sample =
  DDPD_ID :: int
  ROCKTYPE :: "string option"
  SiO2_pct :: cell
  CaO_pct :: cell
  MgO_pct :: cell
  Na2O_pct :: cell
  K2O_pct :: cell
  Fe2O3_pct :: cell
  Al2O3_pct :: cell

text \<open>
  A data frame: the length of its index and its columns in order, each a label with its
  cells.
\<close>

record frame =
  nrows :: nat
  cols :: "(string \<times> cell list) list"

datatype error = KeyError string | NameError string | IndexError | ValueError

definition column :: "frame \<Rightarrow> string \<Rightarrow> error + cell list" where
  "column df name = (case map_of (cols df) name of
     None \<Rightarrow> Inl (KeyError name) | Some c \<Rightarrow> Inr c)"

definition has_column :: "frame \<Rightarrow> string \<Rightarrow> bool" where
  "has_column df name = (map_of (cols df) name \<noteq> None)"

definition iloc_first :: "cell list \<Rightarrow> error + cell" where
  "iloc_first xs = (case xs of [] \<Rightarrow> Inl IndexError | x # _ \<Rightarrow> Inr x)"

definition iloc_last :: "cell list \<Rightarrow> error + cell" where
  "iloc_last xs = (if xs = [] then Inl IndexError else Inr (last xs))"

section \<open>The synthetic weathering series\<close>

text \<open>
  The five oxides the branch reads, the literal series (a float literal denotes the binary64
  value nearest to its decimal), the four cation series scaled by the oxides, and the table.
\<close>

definition cao_pct :: "sample \<Rightarrow> cell" where
  "cao_pct s = cell_or (CaO_pct s) (Num (fl 5))"

definition mgo_pct :: "sample \<Rightarrow> cell" where
  "mgo_pct s = cell_or (MgO_pct s) (Num (fl 3))"

definition sio2_pct :: "sample \<Rightarrow> cell" where
  "sio2_pct s = cell_or (SiO2_pct s) (Num (fl 60))"

definition na2o_pct :: "sample \<Rightarrow> cell" where
  "na2o_pct s = cell_or (Na2O_pct s) (Num (fl 3))"

definition k2o_pct :: "sample \<Rightarrow> cell" where
  "k2o_pct s = cell_or (K2O_pct s) (Num (fl 2))"

definition pH_values :: "rat list" where
  "pH_values = map fl [56/10, 6, 64/10, 68/10, 72/10, 76/10, 8]"

definition ca_weights :: "rat list" where
  "ca_weights = map fl [0, 1/10, 25/100, 45/100, 7/10, 9/10, 1]"

definition mg_weights :: "rat list" where
  "mg_weights = map fl [0, 8/100, 2/10, 4/10, 65/100, 85/100, 1]"

definition na_weights :: "rat list" where
  "na_weights = map fl [0, 15/100, 35/100, 55/100, 75/100, 9/10, 1]"

definition k_weights :: "rat list" where
  "k_weights = map fl [0, 1/10, 3/10, 5/10, 7/10, 85/100, 1]"

definition ca_values :: "sample \<Rightarrow> cell list" where
  "ca_values s = (let ca_max = cmul (cao_pct s) (Num (fl (8/100)))
     in map (\<lambda>w. cmul ca_max (Num w)) ca_weights)"

definition mg_values :: "sample \<Rightarrow> cell list" where
  "mg_values s = (let mg_max = cmul (mgo_pct s) (Num (fl (6/100)))
     in map (\<lambda>w. cmul mg_max (Num w)) mg_weights)"

definition na_values :: "sample \<Rightarrow> cell list" where
  "na_values s = (let na_max = cmul (na2o_pct s) (Num (fl (5/100)))
     in map (\<lambda>w. cmul na_max (Num w)) na_weights)"

definition k_values :: "sample \<Rightarrow> cell list" where
  "k_values s = (let k_max = cmul (k2o_pct s) (Num (fl (3/100)))
     in map (\<lambda>w. cmul k_max (Num w)) k_weights)"

definition si_values :: "rat list" where
  "si_values = map fl [1/10, 3/10, 6/10, 1, 15/10, 21/10, 28/10]"

definition hco3_values :: "rat list" where
  "hco3_values = map fl [5/100, 3/10, 8/10, 15/10, 25/10, 38/10, 52/10]"

definition co3_values :: "rat list" where
  "co3_values = map fl [0, 1/100, 3/100, 8/100, 15/100, 25/100, 4/10]"

definition calcite_si :: "rat list" where
  "calcite_si = map fl [- (28/10), - (21/10), - (14/10), - (7/10), 0, 6/10, 11/10]"

definition dolomite_si :: "rat list" where
  "dolomite_si = map fl [- (35/10), - (27/10), - (19/10), - (11/10), - (3/10), 4/10, 1]"

definition gibbsite_si :: "rat list" where
  "gibbsite_si = map fl [- (15/10), - 1, - (5/10), 0, 4/10, 7/10, 1]"

definition alkalinity :: "cell list" where
  "alkalinity = map2 cadd (map Num hco3_values) (map (\<lambda>c. cmul (Num 2) (Num c)) co3_values)"

definition per_1000 :: "cell list \<Rightarrow> cell list" where
  "per_1000 xs = map (\<lambda>v. cdiv v (Num 1000)) xs"

definition synthetic_results :: "sample \<Rightarrow> frame" where
  "synthetic_results s = \<lparr>nrows = 7, cols =
     [(''pH'', map Num pH_values),
      (''Ca+2'', per_1000 (ca_values s)),
      (''Mg+2'', per_1000 (mg_values s)),
      (''Na+'', per_1000 (na_values s)),
      (''K+'', per_1000 (k_values s)),
      (''SiO2'', per_1000 (map Num si_values)),
      (''HCO3-'', per_1000 (map Num hco3_values)),
      (''CO3-2'', per_1000 (map Num co3_values)),
      (''si_Calcite'', map Num calcite_si),
      (''si_Dolomite'', map Num dolomite_si),
      (''si_Gibbsite'', map Num gibbsite_si),
      (''Alk'', per_1000 alkalinity)]\<rparr>"

section \<open>The input of the engine\<close>

record oxide_values =
  SiO2 :: cell
  CaO :: cell
  MgO :: cell
  Na2O :: cell
  K2O :: cell
  Fe2O3 :: cell
  Al2O3 :: cell

definition oxides :: "sample \<Rightarrow> oxide_values" where
  "oxides s = \<lparr>SiO2 = cell_or (SiO2_pct s) (Num (fl 60)),
     CaO = cell_or (CaO_pct s) (Num (fl 5)),
     MgO = cell_or (MgO_pct s) (Num (fl 3)),
     Na2O = cell_or (Na2O_pct s) (Num (fl 3)),
     K2O = cell_or (K2O_pct s) (Num (fl 2)),
     Fe2O3 = cell_or (Fe2O3_pct s) (Num (fl 5)),
     Al2O3 = cell_or (Al2O3_pct s) (Num (fl 15))\<rparr>"

text \<open>Weight percent to moles: \<open>pct / 100 * 1000 / molar_mass\<close>, evaluated left to right.\<close>

definition moles :: "cell \<Rightarrow> rat \<Rightarrow> cell" where
  "moles pct molar_mass = cdiv (cmul (cdiv pct (Num 100)) (Num 1000)) (Num molar_mass)"

record mineral_moles =
  quartz :: cell
  anorthite :: cell
  forsterite :: cell
  albite :: cell
  kfeldspar :: cell
  hematite :: cell

definition mineral_moles_of :: "oxide_values \<Rightarrow> mineral_moles" where
  "mineral_moles_of ox = \<lparr>quartz = moles (SiO2 ox) (fl (6008/100)),
     anorthite = moles (CaO ox) (fl (2782/10)),
     forsterite = moles (MgO ox) (fl (1407/10)),
     albite = moles (Na2O ox) (fl (2082/10)),
     kfeldspar = moles (K2O ox) (fl (2783/10)),
     hematite = moles (Fe2O3 ox) (fl (1597/10))\<rparr>"

text \<open>
  The input string is a fixed template; its parameters are the sample identifier of the
  title and the six initial amounts of the \<open>EQUILIBRIUM_PHASES\<close> block, printed with four
  decimals (an infinity as \<open>inf\<close>). The \<open>-m0\<close> lines of the \<open>KINETICS\<close> block repeat the amounts
  of anorthite, forsterite and albite.
\<close>

record phreeqc_input =
  title_sample :: int
  Quartz :: cell
  Anorthite :: cell
  Forsterite :: cell
  Albite :: cell
  K_feldspar :: cell
  Hematite :: cell

definition generate_advanced_phreeqc_input :: "sample \<Rightarrow> phreeqc_input" where
  "generate_advanced_phreeqc_input s =
     (let m = mineral_moles_of (oxides s) in
      \<lparr>title_sample = DDPD_ID s,
       Quartz = cfmt 4 (quartz m),
       Anorthite = cfmt 4 (anorthite m),
       Forsterite = cfmt 4 (forsterite m),
       Albite = cfmt 4 (albite m),
       K_feldspar = cfmt 4 (kfeldspar m),
       Hematite = cfmt 4 (hematite m)\<rparr>)"

section \<open>The environment of a run\<close>

text \<open>
  A value of the array the engine returns, a float or a string, and the array itself: empty,
  or a row of headings followed by the data rows.
\<close>

datatype raw = RNum cell | RStr string

datatype selected_output = NoOutput | Output "string list" "raw list list"

fun len :: "selected_output \<Rightarrow> nat" where
  "len NoOutput = 0"
| "len (Output headings data) = Suc (length data)"

text \<open>
  What the script cannot decide by itself: whether the majors file can be read and what it
  holds, whether the engine can be created, which database files load, what the engine
  returns for an input (\<open>None\<close> when \<open>run_string\<close> or \<open>get_selected_output_array\<close> raises),
  which strings pandas reads as numbers, and whether the plotting library draws and saves
  the figure without an exception. The outcomes of reading the mineralogy and trace element
  files only set two flags that nothing reads, so they are left out.
\<close>

record env =
  majors_csv :: "sample list option"
  engine_init :: bool
  load_database :: "string \<Rightarrow> bool"
  load_package_database :: bool
  run_string :: "phreeqc_input \<Rightarrow> selected_output option"
  parse_number :: "string \<Rightarrow> cell option"
  plotting :: bool

text \<open>
  The seven steps, and what a run does that can be observed: it enters a step, tries to read
  an input file, creates the engine, tries a database file of the list or the database of
  the package, runs the engine, builds the synthetic series, saves the figure, writes the
  report.
\<close>

datatype step = LoadInputs | InitSolver | BuildQuery | RunOrFallback | Statistics | Plot | WriteReport

datatype event =
    Begin step
  | ReadCsv string
  | EngineInit
  | LoadDatabase string
  | LoadPackageDatabase
  | RunString
  | Synthetic
  | SaveFig string
  | WriteFile string

section \<open>Step 1: loading the data\<close>

text \<open>File names are written with \<open>/\<close> where the script has a backslash.\<close>

definition majors_path :: string where
  "majors_path = ''C:/Users/Manadip/Downloads/AGDB4_text/AGDB4_text/BV_WholeRock_Majors.txt''"

definition mineralogy_path :: string where
  "mineralogy_path = ''C:/Users/Manadip/Downloads/AGDB4_text/AGDB4_text/Mineralogy.txt''"

definition trace_path :: string where
  "trace_path = ''C:/Users/Manadip/Downloads/AGDB4_text/AGDB4_text/Chem_A_Br.txt''"

definition load_data :: "env \<Rightarrow> event list \<times> sample list option" where
  "load_data e = (case majors_csv e of
     None \<Rightarrow> ([Begin LoadInputs, ReadCsv majors_path], None)
   | Some majors \<Rightarrow>
       ([Begin LoadInputs, ReadCsv majors_path, ReadCsv mineralogy_path, ReadCsv trace_path],
        Some majors))"

section \<open>Step 2: the engine and its database\<close>

definition database_paths :: "string list" where
  "database_paths =
     [''C:/Program Files/USGS/phreeqc-3.8.6-17100-x64/database/wateq4f.dat'',
      ''C:/Program Files/USGS/phreeqc-3.7.3-15968-x64/database/wateq4f.dat'',
      ''C:/Program Files (x86)/USGS/phreeqc-3.8.6-17100-x64/database/wateq4f.dat'',
      ''C:/phreeqc/database/wateq4f.dat'',
      ''wateq4f.dat'',
      ''phreeqc.dat'',
      ''llnl.dat'']"

text \<open>The loop over the paths: it leaves at the first database that loads.\<close>

fun try_databases :: "(string \<Rightarrow> bool) \<Rightarrow> string list \<Rightarrow> event list \<times> bool" where
  "try_databases load [] = ([], False)"
| "try_databases load (db_path # rest) =
     (if load db_path then ([LoadDatabase db_path], True)
      else (case try_databases load rest of (t, loaded) \<Rightarrow> (LoadDatabase db_path # t, loaded)))"

text \<open>The result is the flag \<open>use_synthetic\<close>.\<close>

definition init_engine :: "env \<Rightarrow> event list \<times> bool" where
  "init_engine e =
     (if \<not> engine_init e then ([Begin InitSolver, EngineInit], True)
      else (case try_databases (load_database e) database_paths of
        (t, database_loaded) \<Rightarrow>
          if database_loaded then ([Begin InitSolver, EngineInit] @ t, False)
          else ([Begin InitSolver, EngineInit] @ t @ [LoadPackageDatabase],
                \<not> load_package_database e)))"

section \<open>Step 3: the sample\<close>

definition complete :: "sample \<Rightarrow> bool" where
  "complete s = (notna (SiO2_pct s) \<and> notna (CaO_pct s) \<and> notna (MgO_pct s) \<and>
     notna (Na2O_pct s) \<and> notna (K2O_pct s) \<and> notna (Fe2O3_pct s))"

definition select_sample :: "sample list \<Rightarrow> sample option" where
  "select_sample majors =
     (let complete_samples = filter complete majors in
      if length complete_samples = 0 then None else Some (hd complete_samples))"

definition major_elements :: "sample \<Rightarrow> cell list" where
  "major_elements s = [SiO2_pct s, CaO_pct s, MgO_pct s, Na2O_pct s, K2O_pct s, Fe2O3_pct s,
     Al2O3_pct s]"

definition total_oxides :: "sample \<Rightarrow> cell" where
  "total_oxides s = foldl cadd (Num 0) (filter notna (major_elements s))"

section \<open>Step 4: the simulation or its synthetic replacement\<close>

text \<open>
  \<open>pd.to_numeric(..., errors='coerce')\<close>: a number stays, a string is read as a number and
  becomes NaN when it cannot be.
\<close>

fun coerce :: "(string \<Rightarrow> cell option) \<Rightarrow> raw \<Rightarrow> cell" where
  "coerce parse (RNum v) = v"
| "coerce parse (RStr t) = (case parse t of None \<Rightarrow> NaN | Some v \<Rightarrow> v)"

text \<open>
  The data frame of the engine's rows, every column converted. The frame is as wide as the
  longest data row, and a shorter row is filled up with missing values. When that width is
  not the number of headings the constructor raises, and when a heading occurs twice the
  conversion raises (it receives a frame instead of a column); both are the branch of the
  exception (\<open>None\<close>), which the handler of step 4 turns into the synthetic approach.
\<close>

definition entry :: "(string \<Rightarrow> cell option) \<Rightarrow> raw list \<Rightarrow> nat \<Rightarrow> cell" where
  "entry parse r i = (if i < length r then coerce parse (r ! i) else NaN)"

definition make_frame :: "(string \<Rightarrow> cell option) \<Rightarrow> string list \<Rightarrow> raw list list \<Rightarrow> frame option" where
  "make_frame parse columns data =
     (if distinct columns \<and> foldr max (map length data) 0 = length columns
      then Some \<lparr>nrows = length data,
        cols = map (\<lambda>i. (columns ! i, map (\<lambda>r. entry parse r i) data)) [0..<length columns]\<rparr>
      else None)"

text \<open>
  The branch \<open>if not use_synthetic\<close>: the events, and the results of a successful
  simulation (\<open>None\<close> stands for \<open>simulation_success = False\<close>).
\<close>

definition simulate :: "env \<Rightarrow> bool \<Rightarrow> sample \<Rightarrow> event list \<times> frame option" where
  "simulate e use_synthetic s =
     (if use_synthetic then ([Begin RunOrFallback], None)
      else
        (let input_str = generate_advanced_phreeqc_input s;
             t = [Begin BuildQuery, Begin RunOrFallback, RunString]
         in case run_string e input_str of
              None \<Rightarrow> (t, None)
            | Some output \<Rightarrow>
                if 1 < len output then
                  (case output of
                     NoOutput \<Rightarrow> (t, None)
                   | Output columns data \<Rightarrow> (t, make_frame (parse_number e) columns data))
                else (t, None)))"

text \<open>The results table and the flag \<open>simulation_success\<close>.\<close>

definition results_of :: "env \<Rightarrow> bool \<Rightarrow> sample \<Rightarrow> event list \<times> frame \<times> bool" where
  "results_of e use_synthetic s =
     (case simulate e use_synthetic s of
        (t, Some results_df) \<Rightarrow> (t, results_df, True)
      | (t, None) \<Rightarrow> (t @ [Synthetic], synthetic_results s, False))"

section \<open>Step 5: the indicators\<close>

record kpi =
  initial_pH :: cell
  final_pH :: cell
  pH_change :: cell
  total_ca_release :: cell
  total_mg_release :: cell
  total_cation_release :: cell
  co2_sequestration :: cell
  alkalinity_generated :: cell
  final_si :: "(cell \<times> cell) option"

definition first_of :: "frame \<Rightarrow> string \<Rightarrow> error + cell" where
  "first_of df name = (case column df name of Inl err \<Rightarrow> Inl err | Inr c \<Rightarrow> iloc_first c)"

definition last_of :: "frame \<Rightarrow> string \<Rightarrow> error + cell" where
  "last_of df name = (case column df name of Inl err \<Rightarrow> Inl err | Inr c \<Rightarrow> iloc_last c)"

text \<open>
  The two carbonate indicators: computed from the column \<open>HCO3-\<close> when the table has it
  (the alkalinity from the column \<open>Alk\<close> when there is one), zero otherwise.
\<close>

definition carbonate :: "frame \<Rightarrow> error + cell \<times> cell" where
  "carbonate df =
     (if has_column df ''HCO3-'' then
        (case last_of df ''HCO3-'' of
           Inl err \<Rightarrow> Inl err
         | Inr h \<Rightarrow>
             (case last_of df (if has_column df ''Alk'' then ''Alk'' else ''HCO3-'') of
                Inl err \<Rightarrow> Inl err
              | Inr a \<Rightarrow> Inr (cmul (cmul h (Num 1000)) (Num 44), cmul a (Num 1000))))
      else Inr (Num 0, Num 0))"

text \<open>
  The final saturation indices are bound only when the table has the column
  \<open>si_Calcite\<close>; the column \<open>si_Dolomite\<close> is then read without a test.
\<close>

definition saturation :: "frame \<Rightarrow> error + (cell \<times> cell) option" where
  "saturation df =
     (if has_column df ''si_Calcite'' then
        (case last_of df ''si_Calcite'' of
           Inl err \<Rightarrow> Inl err
         | Inr final_calcite_si \<Rightarrow>
             (case last_of df ''si_Dolomite'' of
                Inl err \<Rightarrow> Inl err
              | Inr final_dolomite_si \<Rightarrow> Inr (Some (final_calcite_si, final_dolomite_si))))
      else Inr None)"

definition analysis :: "frame \<Rightarrow> error + kpi" where
  "analysis df =
     (case first_of df ''pH'' of Inl err \<Rightarrow> Inl err | Inr pH0 \<Rightarrow>
      case last_of df ''pH'' of Inl err \<Rightarrow> Inl err | Inr pH1 \<Rightarrow>
      case last_of df ''Ca+2'' of Inl err \<Rightarrow> Inl err | Inr ca \<Rightarrow>
      case last_of df ''Mg+2'' of Inl err \<Rightarrow> Inl err | Inr mg \<Rightarrow>
      case carbonate df of Inl err \<Rightarrow> Inl err | Inr (co2, alk) \<Rightarrow>
      case saturation df of Inl err \<Rightarrow> Inl err | Inr si \<Rightarrow>
        Inr \<lparr>initial_pH = pH0, final_pH = pH1, pH_change = csub pH1 pH0,
          total_ca_release = cmul ca (Num 1000), total_mg_release = cmul mg (Num 1000),
          total_cation_release = cadd (cmul ca (Num 1000)) (cmul mg (Num 1000)),
          co2_sequestration = co2, alkalinity_generated = alk, final_si = si\<rparr>)"

section \<open>Step 6: the figure\<close>

definition figure_path :: string where
  "figure_path = ''Enhanced_Rock_Weathering_Analysis.png''"

text \<open>
  The whole step is one \<open>try\<close> block whose last statement saves the figure. Besides the
  plotting library, the efficiency panel can raise: it is drawn when the table has the
  columns \<open>Ca+2\<close> and \<open>Mg+2\<close>, and it reads \<open>cao_pct\<close> and \<open>mgo_pct\<close>, which are bound only in
  the synthetic branch.
\<close>

definition visualize :: "env \<Rightarrow> bool \<Rightarrow> frame \<Rightarrow> event list" where
  "visualize e simulation_success df =
     (if plotting e \<and> \<not> (has_column df ''Ca+2'' \<and> has_column df ''Mg+2'' \<and> simulation_success)
      then [Begin Plot, SaveFig figure_path]
      else [Begin Plot])"

section \<open>Step 7: the report\<close>

definition report_path :: string where
  "report_path = ''Enhanced_Rock_Weathering_Report.txt''"

text \<open>The parameters of the report's template, as they are printed.\<close>

record report =
  sample_universe :: nat
  sample_id :: int
  rock_type :: string
  total_analyzed_oxides :: cell
  composition :: "cell list"
  pH_evolution :: "cell \<times> cell \<times> cell"
  neutralization_capacity :: cell
  cation_release :: "cell \<times> cell \<times> cell"
  co2_potential :: cell
  alkalinity_generation :: cell
  calcite :: "string \<times> cell"
  dolomite :: "string \<times> cell"
  pH_buffering :: string
  cation_supply :: string
  co2_rating :: string

definition saturation_state :: "cell \<Rightarrow> string" where
  "saturation_state si = (if cgt si 0 then ''Supersaturated'' else ''Undersaturated'')"

definition make_report :: "sample list \<Rightarrow> sample \<Rightarrow> kpi \<Rightarrow> error + report" where
  "make_report majors s k =
     (case final_si k of
        None \<Rightarrow> Inl (NameError ''final_calcite_si'')
      | Some (final_calcite_si, final_dolomite_si) \<Rightarrow>
          Inr \<lparr>sample_universe = length majors,
            sample_id = DDPD_ID s,
            rock_type = (case ROCKTYPE s of None \<Rightarrow> ''Not specified'' | Some t \<Rightarrow> t),
            total_analyzed_oxides = cfmt 1 (total_oxides s),
            composition = map (cfmt 2) (major_elements s),
            pH_evolution = (cfmt 2 (initial_pH k), cfmt 2 (final_pH k), cfmt 2 (pH_change k)),
            neutralization_capacity = cfmt 2 (cabs (pH_change k)),
            cation_release = (cfmt 2 (total_cation_release k), cfmt 2 (total_ca_release k),
              cfmt 2 (total_mg_release k)),
            co2_potential = cfmt 1 (co2_sequestration k),
            alkalinity_generation = cfmt 2 (alkalinity_generated k),
            calcite = (saturation_state final_calcite_si, cfmt 2 final_calcite_si),
            dolomite = (saturation_state final_dolomite_si, cfmt 2 final_dolomite_si),
            pH_buffering = (if cgt (cabs (pH_change k)) (fl (15/10)) then ''Excellent''
              else if cgt (cabs (pH_change k)) (fl 1) then ''Good'' else ''Moderate''),
            cation_supply = (if cgt (total_cation_release k) (fl 2) then ''High''
              else if cgt (total_cation_release k) (fl 1) then ''Medium'' else ''Low''),
            co2_rating = (if cgt (co2_sequestration k) 100 then ''High''
              else if cgt (co2_sequestration k) 50 then ''Medium'' else ''Low'')\<rparr>)"

section \<open>The script\<close>

text \<open>
  A run ends by \<open>exit(1)\<close>, by an exception that no handler catches, or after the report
  has been written (the summary that follows only prints).
\<close>

datatype outcome = Exit nat | Uncaught error | Completed report

text \<open>Steps 4 to 7, for the selected sample.\<close>

definition process :: "env \<Rightarrow> sample list \<Rightarrow> bool \<Rightarrow> sample \<Rightarrow> event list \<times> outcome" where
  "process e majors use_synthetic s =
     (case results_of e use_synthetic s of (t4, results_df, simulation_success) \<Rightarrow>
     (case analysis results_df of
        Inl err \<Rightarrow> (t4 @ [Begin Statistics], Uncaught err)
      | Inr k \<Rightarrow>
     (let t6 = visualize e simulation_success results_df in
      case make_report majors s k of
        Inl err \<Rightarrow> (t4 @ [Begin Statistics] @ t6 @ [Begin WriteReport], Uncaught err)
      | Inr r \<Rightarrow>
          (t4 @ [Begin Statistics] @ t6 @ [Begin WriteReport, WriteFile report_path],
           Completed r))))"

definition run :: "env \<Rightarrow> event list \<times> outcome" where
  "run e =
     (case load_data e of
        (t1, None) \<Rightarrow> (t1, Exit 1)
      | (t1, Some majors) \<Rightarrow>
     (case init_engine e of (t2, use_synthetic) \<Rightarrow>
     (case select_sample majors of
        None \<Rightarrow> (t1 @ t2, Exit 1)
      | Some s \<Rightarrow>
     (case process e majors use_synthetic s of (t, out) \<Rightarrow> (t1 @ t2 @ t, out)))))"

section \<open>What a trace shows\<close>

text \<open>The steps entered, the input files read, the output files written and the database
  files tried, each in the order of the trace.\<close>

fun step_of :: "event \<Rightarrow> step list" where
  "step_of (Begin st) = [st]"
| "step_of ev = []"

fun read_of :: "event \<Rightarrow> string list" where
  "read_of (ReadCsv f) = [f]"
| "read_of ev = []"

fun written_of :: "event \<Rightarrow> string list" where
  "written_of (SaveFig f) = [f]"
| "written_of (WriteFile f) = [f]"
| "written_of ev = []"

fun database_of :: "event \<Rightarrow> string list" where
  "database_of (LoadDatabase f) = [f]"
| "database_of ev = []"

definition steps :: "event list \<Rightarrow> step list" where
  "steps t = concat (map step_of t)"

definition reads :: "event list \<Rightarrow> string list" where
  "reads t = concat (map read_of t)"

definition writes :: "event list \<Rightarrow> string list" where
  "writes t = concat (map written_of t)"

definition attempted :: "event list \<Rightarrow> string list" where
  "attempted t = concat (map database_of t)"


text \<open>The events of the simulation, of the figure and of the report.\<close>

fun late :: "event \<Rightarrow> bool" where
  "late (Begin st) = (st \<in> {BuildQuery, RunOrFallback, Statistics, Plot, WriteReport})"
| "late RunString = True"
| "late Synthetic = True"
| "late (SaveFig f) = True"
| "late (WriteFile f) = True"
| "late ev = False"

text \<open>
  The engine is unavailable for a sample: it cannot be created, no database loads, the run
  raises, or the array it returns has at most one row.
\<close>

definition unavailable :: "env \<Rightarrow> sample \<Rightarrow> bool" where
  "unavailable e s =
     (\<not> engine_init e \<or>
      (list_all (\<lambda>f. \<not> load_database e f) database_paths \<and> \<not> load_package_database e) \<or>
      (case run_string e (generate_advanced_phreeqc_input s) of
         None \<Rightarrow> True
       | Some output \<Rightarrow> len output \<le> 1))"

text \<open>The sample with each missing oxide replaced by the default of the script.\<close>

definition fill_defaults :: "sample \<Rightarrow> sample" where
  "fill_defaults s = s\<lparr>SiO2_pct := cell_or (SiO2_pct s) (Num 60),
     CaO_pct := cell_or (CaO_pct s) (Num 5),
     MgO_pct := cell_or (MgO_pct s) (Num 3),
     Na2O_pct := cell_or (Na2O_pct s) (Num 3),
     K2O_pct := cell_or (K2O_pct s) (Num 2),
     Fe2O3_pct := cell_or (Fe2O3_pct s) (Num 5),
     Al2O3_pct := cell_or (Al2O3_pct s) (Num 15)\<rparr>"

section \<open>Properties of tables\<close>

text \<open>The comparison \<open>a <= b\<close> of two floats; it is false when one of them is NaN.\<close>

fun cle :: "cell \<Rightarrow> cell \<Rightarrow> bool" where
  "cle (Num a) (Num b) = (a \<le> b)"
| "cle NaN b = False"
| "cle a NaN = False"
| "cle NInf b = True"
| "cle a PInf = True"
| "cle a b = False"

text \<open>A finite non-negative value within the range of binary64, as every finite non-negative
  float is.\<close>

fun finite_nonneg :: "cell \<Rightarrow> bool" where
  "finite_nonneg (Num v) = (0 \<le> v \<and> v < 2 ^ 1024)"
| "finite_nonneg c = False"

text \<open>
  The series of a cation in mol/L, as the branch computes it: the oxide times the factor,
  times the weight of each reaction step, divided by 1000.
\<close>

definition scaled :: "cell \<Rightarrow> rat \<Rightarrow> rat list \<Rightarrow> cell list" where
  "scaled oxide factor weights =
     map (\<lambda>w. cdiv (cmul (cmul oxide (Num (fl factor))) (Num (fl w))) (Num 1000)) weights"

text \<open>A column of the first table is nowhere above the same column of the second.\<close>

definition column_le :: "frame \<Rightarrow> frame \<Rightarrow> string \<Rightarrow> bool" where
  "column_le df df' name = (case (column df name, column df' name) of
     (Inr c, Inr c') \<Rightarrow> list_all2 cle c c'
   | _ \<Rightarrow> False)"

definition nondecreasing :: "frame \<Rightarrow> string \<Rightarrow> bool" where
  "nondecreasing df name = (case column df name of Inl err \<Rightarrow> False | Inr c \<Rightarrow> sorted_wrt cle c)"

fun cell_at :: "frame \<Rightarrow> string \<Rightarrow> nat \<Rightarrow> cell" where
  "cell_at df name i = (case column df name of
     Inl err \<Rightarrow> NaN
   | Inr c \<Rightarrow> if i < length c then c ! i else NaN)"

text \<open>
  By how much the alkalinity at row \<open>i\<close> exceeds the bicarbonate plus twice the carbonate
  of that row, the sum taken in binary64 arithmetic (\<open>alk_excess\<close>) or in exact arithmetic
  (\<open>alk_excess_exact\<close>); \<open>None\<close> when one of the three cells is missing. The three columns
  obey the relation at a row when the excess is \<open>Some 0\<close>.
\<close>

definition alk_excess :: "frame \<Rightarrow> nat \<Rightarrow> rat option" where
  "alk_excess df i = (case (cell_at df ''Alk'' i, cell_at df ''HCO3-'' i, cell_at df ''CO3-2'' i) of
     (Num a, Num h, Num c) \<Rightarrow> Some (a - fadd h (fmul 2 c))
   | _ \<Rightarrow> None)"

definition alk_excess_exact :: "frame \<Rightarrow> nat \<Rightarrow> rat option" where
  "alk_excess_exact df i = (case (cell_at df ''Alk'' i, cell_at df ''HCO3-'' i, cell_at df ''CO3-2'' i) of
     (Num a, Num h, Num c) \<Rightarrow> Some (a - (h + 2 * c))
   | _ \<Rightarrow> None)"

section \<open>Concrete inputs\<close>

definition basalt :: sample where
  "basalt = \<lparr>DDPD_ID = 1, ROCKTYPE = Some ''basalt'', SiO2_pct = Num (fl (523/10)),
     CaO_pct = Num (fl (71/10)), MgO_pct = Num (fl 4), Na2O_pct = Num (fl (31/10)),
     K2O_pct = Num (fl (12/10)), Fe2O3_pct = Num (fl 9), Al2O3_pct = NaN\<rparr>"

definition granite :: sample where
  "granite = \<lparr>DDPD_ID = 2, ROCKTYPE = None, SiO2_pct = Num (fl (72/1)),
     CaO_pct = Num (fl (71/10)), MgO_pct = Num (fl 4), Na2O_pct = Num (fl (31/10)),
     K2O_pct = Num (fl (12/10)), Fe2O3_pct = Num (fl 2), Al2O3_pct = Num (fl 14)\<rparr>"

definition limestone :: sample where
  "limestone = basalt\<lparr>DDPD_ID := 3, CaO_pct := Num (fl 50)\<rparr>"

text \<open>Samples that differ from the first in one oxide only.\<close>

definition magnesian :: sample where
  "magnesian = basalt\<lparr>DDPD_ID := 6, MgO_pct := Num (fl 8)\<rparr>"

definition sodic :: sample where
  "sodic = basalt\<lparr>DDPD_ID := 7, Na2O_pct := Num (fl (62/10))\<rparr>"

definition potassic :: sample where
  "potassic = basalt\<lparr>DDPD_ID := 8, K2O_pct := Num (fl (24/10))\<rparr>"

definition infinite_lime :: sample where
  "infinite_lime = basalt\<lparr>DDPD_ID := 9, CaO_pct := PInf\<rparr>"

definition incomplete :: sample where
  "incomplete = basalt\<lparr>DDPD_ID := 4, MgO_pct := NaN\<rparr>"

text \<open>No engine: the constructor raises.\<close>

definition no_engine :: env where
  "no_engine = \<lparr>majors_csv = Some [incomplete, basalt, granite], engine_init = False,
     load_database = (\<lambda>f. False), load_package_database = False,
     run_string = (\<lambda>i. None), parse_number = (\<lambda>t. None), plotting = True\<rparr>"

text \<open>The majors file cannot be read.\<close>

definition no_data :: env where
  "no_data = no_engine\<lparr>majors_csv := None\<rparr>"

text \<open>Every row of the majors file lacks an oxide.\<close>

definition no_complete_row :: env where
  "no_complete_row = no_engine\<lparr>majors_csv := Some [incomplete, incomplete\<lparr>DDPD_ID := 5\<rparr>]\<rparr>"

text \<open>
  An engine whose fifth database file loads and whose run returns one data row under the
  headings that the engine gives to a pH and to the molalities of two species.
\<close>

definition engine_output :: selected_output where
  "engine_output = Output [''pH'', ''m_Ca+2(mol/kgw)'', ''m_Mg+2(mol/kgw)'']
     [[RNum (Num 7), RNum (Num (1/1000)), RStr ''n/a'']]"

definition with_engine :: env where
  "with_engine = no_engine\<lparr>engine_init := True, load_database := (\<lambda>f. f = ''wateq4f.dat''),
     run_string := (\<lambda>i. Some engine_output)\<rparr>"

text \<open>The same engine returning the columns that step 5 reads, but no saturation index.\<close>

definition with_engine_no_si :: env where
  "with_engine_no_si = with_engine\<lparr>run_string :=
     (\<lambda>i. Some (Output [''pH'', ''Ca+2'', ''Mg+2''] [[RNum (Num 7), RNum (Num (1/1000)), RStr ''n/a'']]))\<rparr>"

section \<open>Rounding: basic facts\<close>

lemma rne_of_int: "rne (of_int n) = n"
  by (simp add: rne_def)

lemma rne_ge_floor: "\<lfloor>x\<rfloor> \<le> rne x"
  by (simp add: rne_def Let_def)

lemma rne_le_floor1: "rne x \<le> \<lfloor>x\<rfloor> + 1"
  by (simp add: rne_def Let_def)

lemma rne_mono: "x \<le> y \<Longrightarrow> rne x \<le> rne y"
proof (cases "\<lfloor>x\<rfloor> = \<lfloor>y\<rfloor>")
  case True
  assume "x \<le> y"
  then show ?thesis using True by (auto simp: rne_def Let_def)
next
  case False
  assume "x \<le> y"
  then have "\<lfloor>x\<rfloor> \<le> \<lfloor>y\<rfloor>" by (rule floor_mono)
  with False have "\<lfloor>x\<rfloor> + 1 \<le> \<lfloor>y\<rfloor>" by simp
  then show ?thesis using rne_le_floor1 [of x] rne_ge_floor [of y] by linarith
qed

lemma bitlen_lower: "0 < p \<Longrightarrow> (2::rat) powi (bitlen p - 1) \<le> of_int p"
proof -
  assume p: "0 < p"
  then have b: "1 \<le> bitlen p" by (simp add: bitlen_alt_def)
  from bitlen_bounds [OF p] have "2 ^ nat (bitlen p - 1) \<le> p" by simp
  then have "(of_int (2 ^ nat (bitlen p - 1)) :: rat) \<le> of_int p" by (simp only: of_int_le_iff)
  then show ?thesis using b by (simp add: power_int_def)
qed

lemma bitlen_upper: "0 < p \<Longrightarrow> of_int p < (2::rat) powi (bitlen p)"
proof -
  assume p: "0 < p"
  from bitlen_bounds [OF p] have "p < 2 ^ nat (bitlen p)" by simp
  then have "(of_int p :: rat) < of_int (2 ^ nat (bitlen p))" by (simp only: of_int_less_iff)
  then show ?thesis using bitlen_nonneg [of p] by (simp add: power_int_def)
qed

text \<open>A quotient of two positive integers lies within a factor two of the power of two
  given by the difference of their bit lengths.\<close>

lemma quotient_bounds:
  assumes p: "0 < p" and q: "0 < q"
  shows "(2::rat) powi (bitlen p - bitlen q - 1) \<le> of_int p / of_int q"
    and "of_int p / of_int q < (2::rat) powi (bitlen p - bitlen q + 1)"
proof -
  let ?x = "of_int p / of_int q :: rat"
  let ?d = "bitlen p - bitlen q"
  have "2 powi (?d - 1) * of_int q \<le> 2 powi (?d - 1) * (2::rat) powi (bitlen q)"
    using bitlen_upper [OF q] by (simp add: mult_left_mono)
  also have "\<dots> = 2 powi (bitlen p - 1)"
    by (simp flip: power_int_add)
  also have "\<dots> \<le> of_int p" using p by (rule bitlen_lower)
  also have "\<dots> = ?x * of_int q" using q by simp
  finally show "2 powi (?d - 1) \<le> ?x" using q by (simp add: pos_le_divide_eq)
  have "?x * of_int q = of_int p" using q by simp
  also have "\<dots> < 2 powi (bitlen p)" using p by (rule bitlen_upper)
  also have "\<dots> = 2 powi (?d + 1) * 2 powi (bitlen q - 1)"
    by (simp flip: power_int_add)
  also have "\<dots> \<le> 2 powi (?d + 1) * of_int q"
    using bitlen_lower [OF q] by (simp add: mult_left_mono)
  finally show "?x < 2 powi (?d + 1)" using q by (simp add: pos_divide_less_eq)
qed

lemma ilog2_bounds:
  assumes "0 < x"
  shows "2 powi (ilog2 x) \<le> x \<and> x < 2 powi (ilog2 x + 1)"
proof -
  obtain p q where pq: "quotient_of x = (p, q)" by (cases "quotient_of x")
  have q: "0 < q" using pq quotient_of_denom_pos by blast
  have x: "x = of_int p / of_int q" using pq by (rule quotient_of_div)
  have p: "0 < p" using assms q x by (simp add: zero_less_divide_iff)
  let ?d = "bitlen p - bitlen q"
  show ?thesis
  proof (cases "2 powi ?d \<le> x")
    case True
    then show ?thesis using quotient_bounds(2) [OF p q] pq x by (simp add: ilog2_def Let_def)
  next
    case False
    then show ?thesis using quotient_bounds(1) [OF p q] pq x by (simp add: ilog2_def Let_def)
  qed
qed

lemma ilog2_unique:
  assumes "2 powi e \<le> x" "x < 2 powi (e + 1)"
  shows "ilog2 x = e"
proof -
  have x: "0 < x" using assms(1) by (rule less_le_trans [rotated]) simp
  note b = ilog2_bounds [OF x]
  have "\<not> ilog2 x + 1 \<le> e"
  proof
    assume "ilog2 x + 1 \<le> e"
    then have "(2::rat) powi (ilog2 x + 1) \<le> 2 powi e"
      by (intro power_int_increasing) simp_all
    then show False using b assms by linarith
  qed
  moreover have "\<not> e + 1 \<le> ilog2 x"
  proof
    assume "e + 1 \<le> ilog2 x"
    then have "(2::rat) powi (e + 1) \<le> 2 powi (ilog2 x)"
      by (intro power_int_increasing) simp_all
    then show False using b assms by linarith
  qed
  ultimately show ?thesis by linarith
qed

lemma ilog2_mono:
  assumes "0 < x" "x \<le> y"
  shows "ilog2 x \<le> ilog2 y"
proof (rule ccontr)
  assume "\<not> ilog2 x \<le> ilog2 y"
  then have "ilog2 y + 1 \<le> ilog2 x" by simp
  then have "(2::rat) powi (ilog2 y + 1) \<le> 2 powi (ilog2 x)"
    by (intro power_int_increasing) simp_all
  moreover have "y < 2 powi (ilog2 y + 1)" using ilog2_bounds [of y] assms by simp
  moreover have "2 powi (ilog2 x) \<le> x" using ilog2_bounds [of x] assms by simp
  ultimately show False using assms by linarith
qed

lemma ulp_pos: "0 < ulp a"
  by (simp add: ulp_def)

lemma fl_pos: "0 < x \<Longrightarrow> fl x = of_int (rne (x / ulp x)) * ulp x"
  by (simp add: fl_def)

lemma fl_nonneg: "0 \<le> x \<Longrightarrow> 0 \<le> fl x"
proof (cases "x = 0")
  case True
  then show ?thesis by (simp add: fl_def)
next
  case False
  assume "0 \<le> x"
  with False have x: "0 < x" by simp
  have "0 \<le> x / ulp x" using x ulp_pos [of x] by simp
  then have "0 \<le> \<lfloor>x / ulp x\<rfloor>" by simp
  then have "0 \<le> rne (x / ulp x)" using rne_ge_floor [of "x / ulp x"] by linarith
  then show ?thesis using x ulp_pos [of x] by (simp add: fl_pos)
qed

lemma fl_upper:
  assumes "0 < x"
  shows "fl x \<le> 2 powi (expo x + 1)"
proof -
  have "x < 2 powi (ilog2 x + 1)" using ilog2_bounds [OF assms] by simp
  also have "\<dots> \<le> 2 powi (expo x + 1)"
    by (intro power_int_increasing) (simp_all add: expo_def)
  finally have "x / ulp x \<le> 2 powi (expo x + 1) / ulp x"
    using ulp_pos [of x] by (simp add: divide_right_mono)
  also have "\<dots> = 2 powi 53"
    by (simp add: ulp_def flip: power_int_diff)
  also have "\<dots> = of_int (2 ^ 53)" by (simp add: power_int_def)
  finally have "rne (x / ulp x) \<le> rne (of_int (2 ^ 53))" by (rule rne_mono)
  then have "rne (x / ulp x) \<le> 2 ^ 53" by (simp only: rne_of_int)
  then have "(of_int (rne (x / ulp x)) :: rat) \<le> of_int (2 ^ 53)" by (simp only: of_int_le_iff)
  then have "of_int (rne (x / ulp x)) * ulp x \<le> of_int (2 ^ 53) * ulp x"
    using ulp_pos [of x] by (simp add: mult_right_mono)
  also have "of_int (2 ^ 53) * ulp x = 2 powi (expo x + 1)"
    using power_int_add [of "2::rat" 53 "expo x - 52"] by (simp add: ulp_def add.commute)
  finally show ?thesis using assms by (simp add: fl_pos)
qed

lemma fl_lower:
  assumes "0 < y" "expo y = ilog2 y"
  shows "2 powi (expo y) \<le> fl y"
proof -
  have "2 powi (expo y) \<le> y" using ilog2_bounds [OF assms(1)] assms(2) by simp
  then have "2 powi (expo y) / ulp y \<le> y / ulp y"
    using ulp_pos [of y] by (simp add: divide_right_mono)
  moreover have "2 powi (expo y) / ulp y = 2 powi 52"
    by (simp add: ulp_def flip: power_int_diff)
  moreover have "(2::rat) powi 52 = of_int (2 ^ 52)" by (simp add: power_int_def)
  ultimately have "of_int (2 ^ 52) \<le> y / ulp y" by simp
  then have "rne (of_int (2 ^ 52)) \<le> rne (y / ulp y)" by (rule rne_mono)
  then have "2 ^ 52 \<le> rne (y / ulp y)" by (simp only: rne_of_int)
  then have "(of_int (2 ^ 52) :: rat) \<le> of_int (rne (y / ulp y))" by (simp only: of_int_le_iff)
  then have "of_int (2 ^ 52) * ulp y \<le> of_int (rne (y / ulp y)) * ulp y"
    using ulp_pos [of y] by (simp add: mult_right_mono)
  moreover have "of_int (2 ^ 52) * ulp y = 2 powi (expo y)"
    using power_int_add [of "2::rat" 52 "expo y - 52"] by (simp add: ulp_def)
  ultimately show ?thesis using assms by (simp add: fl_pos)
qed

lemma expo_mono: "0 < x \<Longrightarrow> x \<le> y \<Longrightarrow> expo x \<le> expo y"
  using ilog2_mono [of x y] by (simp add: expo_def)

lemma fl_mono_pos:
  assumes "0 < x" "x \<le> y"
  shows "fl x \<le> fl y"
proof (cases "expo x = expo y")
  case True
  then have u: "ulp x = ulp y" by (simp add: ulp_def)
  have "x / ulp y \<le> y / ulp y" using assms ulp_pos [of y] by (simp add: divide_right_mono)
  then have "rne (x / ulp y) \<le> rne (y / ulp y)" by (rule rne_mono)
  then have "(of_int (rne (x / ulp y)) :: rat) \<le> of_int (rne (y / ulp y))" by (simp only: of_int_le_iff)
  then have "of_int (rne (x / ulp y)) * ulp y \<le> of_int (rne (y / ulp y)) * ulp y"
    using ulp_pos [of y] by (simp add: mult_right_mono)
  then show ?thesis using assms u by (simp add: fl_pos)
next
  case False
  have y: "0 < y" using assms by simp
  from False expo_mono [OF assms] have lt: "expo x + 1 \<le> expo y" by simp
  have "- 1022 \<le> expo x" by (simp add: expo_def)
  with lt have "expo y = ilog2 y" by (simp add: expo_def max_def split: if_splits)
  then have "2 powi (expo y) \<le> fl y" using y by (intro fl_lower)
  moreover have "(2::rat) powi (expo x + 1) \<le> 2 powi (expo y)"
    using lt by (intro power_int_increasing) simp_all
  moreover have "fl x \<le> 2 powi (expo x + 1)" using assms(1) by (rule fl_upper)
  ultimately show ?thesis by linarith
qed

lemma fl_mono_nonneg: "0 \<le> x \<Longrightarrow> x \<le> y \<Longrightarrow> fl x \<le> fl y"
proof (cases "x = 0")
  case True
  assume "0 \<le> x" "x \<le> y"
  then show ?thesis using True fl_nonneg [of y] by (simp add: fl_def)
next
  case False
  assume "0 \<le> x" "x \<le> y"
  then show ?thesis using False fl_mono_pos [of x y] by simp
qed

text \<open>Powers of two are binary64 values, and a result of magnitude at most \<open>2 ^ 1023\<close> is
  finite.\<close>

lemma fl_power2:
  assumes "- 1022 \<le> e"
  shows "fl (2 powi e) = 2 powi e"
proof -
  have p: "(0::rat) < 2 powi e" by simp
  have "(2::rat) powi e < 2 powi (e + 1)"
    by (intro power_int_strict_increasing) simp_all
  then have "ilog2 (2 powi e) = e" by (intro ilog2_unique) simp_all
  then have u: "ulp (2 powi e) = 2 powi (e - 52)" using assms by (simp add: ulp_def expo_def)
  have "(2::rat) powi e / 2 powi (e - 52) = 2 powi 52" by (simp flip: power_int_diff)
  also have "\<dots> = of_int (2 ^ 52)" by (simp add: power_int_def)
  finally have "rne (2 powi e / ulp (2 powi e)) = 2 ^ 52" using u by (simp only: rne_of_int)
  then have "fl (2 powi e) = of_int (2 ^ 52) * 2 powi (e - 52)" using p u by (simp add: fl_pos)
  also have "\<dots> = 2 powi e" using power_int_add [of "2::rat" 52 "e - 52"] by simp
  finally show ?thesis .
qed

lemma fl_one: "fl 1 = 1"
  using fl_power2 [of 0] by simp

lemma rnd_finite:
  assumes "0 \<le> x" "x \<le> 2 ^ 1023"
  shows "rnd x = Num (fl x)" and "0 \<le> fl x" and "fl x \<le> 2 ^ 1023"
proof -
  have e: "(2::rat) powi 1023 = 2 ^ 1023" by (simp only: power_int_numeral)
  have "x \<le> 2 powi 1023" using assms(2) by (simp only: e)
  with assms(1) have "fl x \<le> fl (2 powi 1023)" by (rule fl_mono_nonneg)
  then show u: "fl x \<le> 2 ^ 1023" using fl_power2 [of 1023] by (simp only: e)
  show n: "0 \<le> fl x" using assms(1) by (rule fl_nonneg)
  have lt: "(2::rat) ^ 1023 < 2 ^ 1024" by (intro power_strict_increasing) simp_all
  have "fl x < 2 ^ 1024" using u lt by (rule le_less_trans)
  moreover have "- ((2::rat) ^ 1024) < 0" by simp
  then have "- ((2::rat) ^ 1024) < fl x" using n by (rule less_le_trans)
  ultimately show "rnd x = Num (fl x)" by (simp only: rnd_def Let_def not_le [symmetric] if_False)
qed

lemma rnd_small: "0 \<le> x \<Longrightarrow> x \<le> 1024 \<Longrightarrow> rnd x = Num (fl x)"
proof -
  assume x: "0 \<le> x" "x \<le> 1024"
  have "(2::rat) ^ 10 \<le> 2 ^ 1023" by (intro power_increasing) simp_all
  then have "x \<le> 2 ^ 1023" using x(2) by simp
  with x(1) show ?thesis by (rule rnd_finite(1))
qed

section \<open>Rounding: evaluation on numerals\<close>

lemma bitlen_One: "bitlen 1 = 1"
  by (simp add: compute_bitlen)

lemma bitlen_Bit0: "bitlen (numeral (Num.Bit0 n)) = bitlen (numeral n) + 1"
proof -
  have "numeral (Num.Bit0 n) div (2::int) = numeral n" by simp
  then show ?thesis using compute_bitlen [of "numeral (Num.Bit0 n)"] by simp
qed

lemma bitlen_Bit1: "bitlen (numeral (Num.Bit1 n)) = bitlen (numeral n) + 1"
proof -
  have "numeral (Num.Bit1 n) div (2::int) = numeral n" by simp
  then show ?thesis using compute_bitlen [of "numeral (Num.Bit1 n)"] by simp
qed

lemma bitlen_numeral_One: "bitlen (numeral Num.One) = 1"
  by (simp add: bitlen_One)

lemmas bitlen_numeral = bitlen_One bitlen_numeral_One bitlen_Bit0 bitlen_Bit1

lemma ilog2_quotient:
  assumes "0 < p" "0 < q"
  shows "ilog2 (of_int p / of_int q) =
    (if (2::rat) powi (bitlen p - bitlen q) \<le> of_int p / of_int q
     then bitlen p - bitlen q else bitlen p - bitlen q - 1)"
proof (cases "(2::rat) powi (bitlen p - bitlen q) \<le> of_int p / of_int q")
  case True
  then show ?thesis using quotient_bounds(2) [OF assms] by (simp add: ilog2_unique)
next
  case False
  have "ilog2 (of_int p / of_int q) = bitlen p - bitlen q - 1"
    using quotient_bounds(1) [OF assms] False by (intro ilog2_unique) simp_all
  then show ?thesis using False by simp
qed

lemma ilog2_numeral_div:
  "ilog2 (numeral a / numeral b) =
    (if (2::rat) powi (bitlen (numeral a) - bitlen (numeral b)) \<le> numeral a / numeral b
     then bitlen (numeral a) - bitlen (numeral b) else bitlen (numeral a) - bitlen (numeral b) - 1)"
  using ilog2_quotient [of "numeral a" "numeral b"] by simp

lemma ilog2_numeral:
  "ilog2 (numeral a) =
    (if (2::rat) powi (bitlen (numeral a) - 1) \<le> numeral a
     then bitlen (numeral a) - 1 else bitlen (numeral a) - 2)"
  using ilog2_quotient [of "numeral a" 1] by (simp add: bitlen_One)

lemma ilog2_one_div:
  "ilog2 (1 / numeral b) =
    (if (2::rat) powi (1 - bitlen (numeral b)) \<le> 1 / numeral b
     then 1 - bitlen (numeral b) else - bitlen (numeral b))"
  using ilog2_quotient [of 1 "numeral b"] by (simp add: bitlen_One)

lemma ilog2_one: "ilog2 1 = 0"
  by (rule ilog2_unique) simp_all

lemma floor_rat_numeral_div: "\<lfloor>numeral a / numeral b :: rat\<rfloor> = numeral a div numeral b"
  using floor_divide_of_int_eq [of "numeral a" "numeral b", where ?'a = rat] by simp

lemma floor_rat_one_div: "\<lfloor>1 / numeral b :: rat\<rfloor> = 1 div numeral b"
  using floor_divide_of_int_eq [of 1 "numeral b", where ?'a = rat] by simp

lemmas fl_eval = fl_def expo_def ulp_def rne_def Let_def fadd_def fsub_def fmul_def fdiv_def
  ilog2_numeral_div ilog2_numeral ilog2_one_div ilog2_one bitlen_numeral
  floor_rat_numeral_div floor_rat_one_div round_dec_def

lemmas cell_eval = rnd_def signed_inf_def csub_def cell_or_def

section \<open>The synthetic series: columns and indicators\<close>

lemma synthetic_columns:
  "column (synthetic_results s) ''pH'' = Inr (map Num pH_values)"
  "column (synthetic_results s) ''Ca+2'' = Inr (per_1000 (ca_values s))"
  "column (synthetic_results s) ''Mg+2'' = Inr (per_1000 (mg_values s))"
  "column (synthetic_results s) ''Na+'' = Inr (per_1000 (na_values s))"
  "column (synthetic_results s) ''K+'' = Inr (per_1000 (k_values s))"
  "column (synthetic_results s) ''SiO2'' = Inr (per_1000 (map Num si_values))"
  "column (synthetic_results s) ''HCO3-'' = Inr (per_1000 (map Num hco3_values))"
  "column (synthetic_results s) ''CO3-2'' = Inr (per_1000 (map Num co3_values))"
  "column (synthetic_results s) ''si_Calcite'' = Inr (map Num calcite_si)"
  "column (synthetic_results s) ''si_Dolomite'' = Inr (map Num dolomite_si)"
  "column (synthetic_results s) ''si_Gibbsite'' = Inr (map Num gibbsite_si)"
  "column (synthetic_results s) ''Alk'' = Inr (per_1000 alkalinity)"
  by (simp_all add: column_def synthetic_results_def)

lemma synthetic_has_column:
  "has_column (synthetic_results s) ''HCO3-''"
  "has_column (synthetic_results s) ''Alk''"
  "has_column (synthetic_results s) ''si_Calcite''"
  "has_column (synthetic_results s) ''Ca+2''"
  "has_column (synthetic_results s) ''Mg+2''"
  by (simp_all add: has_column_def synthetic_results_def)

lemma per_1000_nonempty: "per_1000 xs = [] \<longleftrightarrow> xs = []"
  by (simp add: per_1000_def)

lemma series_nonempty:
  "ca_values s \<noteq> []" "mg_values s \<noteq> []" "hco3_values \<noteq> []" "alkalinity \<noteq> []"
  "pH_values \<noteq> []" "calcite_si \<noteq> []" "dolomite_si \<noteq> []"
  by (simp_all add: ca_values_def ca_weights_def mg_values_def mg_weights_def Let_def hco3_values_def
      alkalinity_def co3_values_def pH_values_def calcite_si_def dolomite_si_def)

lemma analysis_synthetic:
  "analysis (synthetic_results s) =
     Inr \<lparr>initial_pH = Num (hd pH_values), final_pH = Num (last pH_values),
       pH_change = csub (Num (last pH_values)) (Num (hd pH_values)),
       total_ca_release = cmul (last (per_1000 (ca_values s))) (Num 1000),
       total_mg_release = cmul (last (per_1000 (mg_values s))) (Num 1000),
       total_cation_release =
         cadd (cmul (last (per_1000 (ca_values s))) (Num 1000))
           (cmul (last (per_1000 (mg_values s))) (Num 1000)),
       co2_sequestration = cmul (cmul (last (per_1000 (map Num hco3_values))) (Num 1000)) (Num 44),
       alkalinity_generated = cmul (last (per_1000 alkalinity)) (Num 1000),
       final_si = Some (Num (last calcite_si), Num (last dolomite_si))\<rparr>"
proof -
  have "first_of (synthetic_results s) ''pH'' = Inr (Num (hd pH_values))"
    by (simp add: first_of_def synthetic_columns iloc_first_def pH_values_def)
  moreover have "last_of (synthetic_results s) ''pH'' = Inr (Num (last pH_values))"
    using series_nonempty by (simp add: last_of_def synthetic_columns iloc_last_def last_map)
  moreover have "last_of (synthetic_results s) ''Ca+2'' = Inr (last (per_1000 (ca_values s)))"
    using series_nonempty by (simp add: last_of_def synthetic_columns iloc_last_def per_1000_nonempty)
  moreover have "last_of (synthetic_results s) ''Mg+2'' = Inr (last (per_1000 (mg_values s)))"
    using series_nonempty by (simp add: last_of_def synthetic_columns iloc_last_def per_1000_nonempty)
  moreover have "carbonate (synthetic_results s) =
      Inr (cmul (cmul (last (per_1000 (map Num hco3_values))) (Num 1000)) (Num 44),
        cmul (last (per_1000 alkalinity)) (Num 1000))"
    using series_nonempty
    by (simp add: carbonate_def synthetic_has_column last_of_def synthetic_columns iloc_last_def
        per_1000_nonempty)
  moreover have "saturation (synthetic_results s) = Inr (Some (Num (last calcite_si), Num (last dolomite_si)))"
    using series_nonempty
    by (simp add: saturation_def synthetic_has_column last_of_def synthetic_columns iloc_last_def last_map)
  ultimately show ?thesis by (simp add: analysis_def)
qed

lemma pH_values_eval:
  "pH_values = [3152519739159347 / 562949953421312, 6, 3602879701896397 / 562949953421312,
     7656119366529843 / 1125899906842624, 8106479329266893 / 1125899906842624,
     4278419646001971 / 562949953421312, 8]"
  by (simp add: pH_values_def fl_eval)

text \<open>
  The difference of the last and the first pH value is a binary64 value that is not the
  binary64 value of the decimal 2.4: Python prints it as \<open>2.4000000000000004\<close>, and with two
  decimals as \<open>2.40\<close>.
\<close>

lemma pH_change_binary64:
  "fsub (fl 8) (fl (56/10)) = 1351079888211149 / 562949953421312 \<and>
   fl (24/10) = 5404319552844595 / 2251799813685248 \<and>
   fsub (fl 8) (fl (56/10)) - fl (24/10) = 1 / 2 ^ 51"
  by (simp add: fl_eval)

section \<open>The synthetic series: monotone columns and the carbonate columns\<close>

lemma scaled_step_mono:
  assumes m: "0 \<le> m" and a: "0 \<le> a" and ab: "a \<le> b"
  shows "fdiv (fmul m (fl a)) 1000 \<le> fdiv (fmul m (fl b)) 1000"
proof -
  have fa: "0 \<le> fl a" using a by (rule fl_nonneg)
  have "fl a \<le> fl b" using a ab by (rule fl_mono_nonneg)
  then have "m * fl a \<le> m * fl b" using m by (rule mult_left_mono)
  moreover have "0 \<le> m * fl a" using m fa by simp
  ultimately have le: "fmul m (fl a) \<le> fmul m (fl b)"
    unfolding fmul_def by (intro fl_mono_nonneg)
  have "0 \<le> fmul m (fl a)" unfolding fmul_def using m fa by (intro fl_nonneg) simp
  then have "0 \<le> fmul m (fl a) / 1000" by simp
  moreover have "fmul m (fl a) / 1000 \<le> fmul m (fl b) / 1000" using le by simp
  ultimately show ?thesis unfolding fdiv_def by (intro fl_mono_nonneg)
qed

lemma scaled_cell:
  assumes m: "0 \<le> m" "m \<le> 2 ^ 1023" and w: "0 \<le> w" "w \<le> 1"
  shows "cdiv (cmul (Num m) (Num w)) (Num 1000) = Num (fdiv (fmul m w) 1000)"
proof -
  have mw: "0 \<le> m * w" using m w by simp
  have "m * w \<le> m * 1" using m w by (intro mult_left_mono) simp_all
  then have le: "m * w \<le> 2 ^ 1023" using m by simp
  note r = rnd_finite [OF mw le]
  have d: "0 \<le> fl (m * w) / 1000" using r(2) by simp
  have "fl (m * w) / 1000 \<le> fl (m * w)" using r(2) by simp
  then have "fl (m * w) / 1000 \<le> 2 ^ 1023" using r(3) by (rule order_trans)
  then show ?thesis using rnd_finite(1) [OF d] r(1) by (simp add: fmul_def fdiv_def)
qed

lemma scaled_nondecreasing:
  assumes m: "0 \<le> m" "m \<le> 2 ^ 1023" and ws: "sorted_wrt (\<le>) ws"
    and pos: "\<forall>w\<in>set ws. 0 \<le> w \<and> w \<le> 1"
  shows "sorted_wrt cle (per_1000 (map (\<lambda>w. cmul (Num m) (Num w)) (map fl ws)))"
proof -
  have c: "cdiv (cmul (Num m) (Num (fl w))) (Num 1000) = Num (fdiv (fmul m (fl w)) 1000)"
    if "w \<in> set ws" for w
  proof -
    have "0 \<le> fl w" using that pos by (intro fl_nonneg) simp
    moreover have "fl w \<le> fl 1" using that pos by (intro fl_mono_nonneg) simp_all
    ultimately show ?thesis using m by (intro scaled_cell) (simp_all add: fl_one)
  qed
  have "sorted_wrt (\<lambda>a b. cle (cdiv (cmul (Num m) (Num (fl a))) (Num 1000))
      (cdiv (cmul (Num m) (Num (fl b))) (Num 1000))) ws"
    using ws
  proof (rule sorted_wrt_mono_rel [rotated])
    fix a b assume ab: "a \<in> set ws" "b \<in> set ws" "a \<le> b"
    then have "fdiv (fmul m (fl a)) 1000 \<le> fdiv (fmul m (fl b)) 1000"
      using pos m(1) by (intro scaled_step_mono) simp_all
    then show "cle (cdiv (cmul (Num m) (Num (fl a))) (Num 1000))
        (cdiv (cmul (Num m) (Num (fl b))) (Num 1000))"
      using ab by (simp only: c cle.simps)
  qed
  then show ?thesis by (simp add: per_1000_def sorted_wrt_map)
qed

text \<open>The largest release of a cation is finite when its oxide is finite or defaulted.\<close>

lemma release_finite:
  assumes v: "0 \<le> v" "v < 2 ^ 1024" and k: "0 \<le> k" "k \<le> 1 / 8"
  shows "cmul (Num v) (Num k) = Num (fmul v k)" and "0 \<le> fmul v k" and "fmul v k \<le> 2 ^ 1023"
proof -
  have vk: "0 \<le> v * k" using v k by simp
  have "v * k \<le> 2 ^ 1024 * (1 / 8)" using v k by (intro mult_mono) simp_all
  also have "\<dots> = (2::rat) ^ 1021"
  proof -
    have "(2::rat) ^ 1024 = 2 ^ 1021 * 2 ^ 3" by (simp only: power_add [symmetric]) simp
    then show ?thesis by simp
  qed
  also have "\<dots> \<le> 2 ^ 1023" by (intro power_increasing) simp_all
  finally have le: "v * k \<le> 2 ^ 1023" .
  note r = rnd_finite [OF vk le]
  show "cmul (Num v) (Num k) = Num (fmul v k)" using r(1) by (simp add: fmul_def)
  show "0 \<le> fmul v k" using r(2) by (simp add: fmul_def)
  show "fmul v k \<le> 2 ^ 1023" using r(3) by (simp add: fmul_def)
qed

lemma max_release:
  assumes c: "finite_nonneg c \<or> c = NaN" and d: "0 \<le> d" "d \<le> 64"
    and k: "0 \<le> k" "k \<le> 1 / 8"
  shows "\<exists>m. cmul (cell_or c (Num d)) (Num k) = Num m \<and> 0 \<le> m \<and> m \<le> 2 ^ 1023"
proof -
  have big: "(64::rat) < 2 ^ 1024"
  proof -
    have "(2::rat) ^ 6 < 2 ^ 1024" by (intro power_strict_increasing) simp_all
    then show ?thesis by simp
  qed
  obtain v where v: "cell_or c (Num d) = Num v" "0 \<le> v" "v < 2 ^ 1024"
  proof (cases c)
    case (Num v)
    then show ?thesis using c that [of v] by (simp add: cell_or_def)
  next
    case NaN
    then show ?thesis using d big that [of d] by (simp add: cell_or_def)
  qed (use c in simp_all)
  show ?thesis using release_finite [OF v(2,3) k] v(1) by simp
qed

text \<open>A larger oxide gives a series that is nowhere smaller.\<close>

lemma scaled_mono_oxide:
  assumes a: "0 \<le> a" "a \<le> b" "b < 2 ^ 1024" and k: "0 \<le> k" "k \<le> 1 / 8"
    and w: "0 \<le> w" "w \<le> 1"
  shows "cle (cdiv (cmul (cmul (Num a) (Num k)) (Num w)) (Num 1000))
    (cdiv (cmul (cmul (Num b) (Num k)) (Num w)) (Num 1000))"
proof -
  have a': "a < 2 ^ 1024" using a by simp
  have b': "0 \<le> b" using a by simp
  note ra = release_finite [OF a(1) a' k] and rb = release_finite [OF b' a(3) k]
  have "a * k \<le> b * k" using a k by (intro mult_right_mono) simp_all
  moreover have "0 \<le> a * k" using a k by simp
  ultimately have m: "fmul a k \<le> fmul b k" unfolding fmul_def by (intro fl_mono_nonneg)
  have "fmul a k * w \<le> fmul b k * w" using m w by (intro mult_right_mono) simp_all
  moreover have "0 \<le> fmul a k * w" using ra(2) w by simp
  ultimately have mw: "fmul (fmul a k) w \<le> fmul (fmul b k) w"
    unfolding fmul_def [of "fl (a * k)"] fmul_def [of "fl (b * k)"] fmul_def [of a] fmul_def [of b]
    by (intro fl_mono_nonneg)
  have "0 \<le> fmul (fmul a k) w" unfolding fmul_def using ra(2) w
    by (intro fl_nonneg) (simp add: fmul_def)
  then have "0 \<le> fmul (fmul a k) w / 1000" by simp
  moreover have "fmul (fmul a k) w / 1000 \<le> fmul (fmul b k) w / 1000" using mw by simp
  ultimately have "fdiv (fmul (fmul a k) w) 1000 \<le> fdiv (fmul (fmul b k) w) 1000"
    unfolding fdiv_def by (intro fl_mono_nonneg)
  then show ?thesis
    by (simp only: ra(1) rb(1) scaled_cell [OF ra(2,3) w] scaled_cell [OF rb(2,3) w] cle.simps)
qed

lemma weight_bounds: "0 \<le> w \<Longrightarrow> w \<le> 1 \<Longrightarrow> 0 \<le> fl w \<and> fl w \<le> 1"
  using fl_nonneg [of w] fl_mono_nonneg [of w 1] by (simp add: fl_one)

lemma scaled_mono:
  assumes c: "finite_nonneg c" "finite_nonneg c'" "cle c c'"
    and k: "0 \<le> fl k \<and> fl k \<le> 1 / 8" and ws: "\<forall>w\<in>set ws. 0 \<le> w \<and> w \<le> 1"
  shows "list_all2 cle (scaled c k ws) (scaled c' k ws)"
proof -
  obtain a where a: "c = Num a" using c(1) by (cases c) simp_all
  obtain b where b: "c' = Num b" using c(2) by (cases c') simp_all
  have ab: "0 \<le> a" "a \<le> b" "b < 2 ^ 1024" using c a b by simp_all
  have "cle (cdiv (cmul (cmul (Num a) (Num (fl k))) (Num (fl w))) (Num 1000))
      (cdiv (cmul (cmul (Num b) (Num (fl k))) (Num (fl w))) (Num 1000))" if "w \<in> set ws" for w
    using that ws k weight_bounds [of w] by (intro scaled_mono_oxide [OF ab]) simp_all
  then show ?thesis
    by (simp add: scaled_def a b list_all2_map1 list_all2_map2 list_all2_same)
qed

lemma weights_sorted:
  "sorted_wrt (\<le>) [0, 1/10, 25/100, 45/100, 7/10, 9/10, (1::rat)]"
  "sorted_wrt (\<le>) [0, 8/100, 2/10, 4/10, 65/100, 85/100, (1::rat)]"
  "sorted_wrt (\<le>) [0, 15/100, 35/100, 55/100, 75/100, 9/10, (1::rat)]"
  "sorted_wrt (\<le>) [0, 1/10, 3/10, 5/10, 7/10, 85/100, (1::rat)]"
  by simp_all

lemma factors_small:
  "0 \<le> fl (8/100) \<and> fl (8/100) \<le> 1 / 8" "0 \<le> fl (6/100) \<and> fl (6/100) \<le> 1 / 8"
  "0 \<le> fl (5/100) \<and> fl (5/100) \<le> 1 / 8" "0 \<le> fl (3/100) \<and> fl (3/100) \<le> 1 / 8"
  "0 \<le> fl 5 \<and> fl 5 \<le> 64" "0 \<le> fl 3 \<and> fl 3 \<le> 64" "0 \<le> fl 2 \<and> fl 2 \<le> 64"
  by (simp_all add: fl_eval)

lemma ca_nondecreasing:
  assumes "finite_nonneg (CaO_pct s) \<or> CaO_pct s = NaN"
  shows "nondecreasing (synthetic_results s) ''Ca+2''"
proof -
  obtain m where m: "cmul (cell_or (CaO_pct s) (Num (fl 5))) (Num (fl (8/100))) = Num m"
    "0 \<le> m" "m \<le> 2 ^ 1023"
    using max_release [OF assms, of "fl 5" "fl (8/100)"] factors_small by blast
  show ?thesis
    unfolding nondecreasing_def synthetic_columns ca_values_def ca_weights_def Let_def cao_pct_def m(1)
    using weights_sorted(1) m(2,3) by (simp only: sum.case, intro scaled_nondecreasing) simp_all
qed

lemma mg_nondecreasing:
  assumes "finite_nonneg (MgO_pct s) \<or> MgO_pct s = NaN"
  shows "nondecreasing (synthetic_results s) ''Mg+2''"
proof -
  obtain m where m: "cmul (cell_or (MgO_pct s) (Num (fl 3))) (Num (fl (6/100))) = Num m"
    "0 \<le> m" "m \<le> 2 ^ 1023"
    using max_release [OF assms, of "fl 3" "fl (6/100)"] factors_small by blast
  show ?thesis
    unfolding nondecreasing_def synthetic_columns mg_values_def mg_weights_def Let_def mgo_pct_def m(1)
    using weights_sorted(2) m(2,3) by (simp only: sum.case, intro scaled_nondecreasing) simp_all
qed

lemma na_nondecreasing:
  assumes "finite_nonneg (Na2O_pct s) \<or> Na2O_pct s = NaN"
  shows "nondecreasing (synthetic_results s) ''Na+''"
proof -
  obtain m where m: "cmul (cell_or (Na2O_pct s) (Num (fl 3))) (Num (fl (5/100))) = Num m"
    "0 \<le> m" "m \<le> 2 ^ 1023"
    using max_release [OF assms, of "fl 3" "fl (5/100)"] factors_small by blast
  show ?thesis
    unfolding nondecreasing_def synthetic_columns na_values_def na_weights_def Let_def na2o_pct_def m(1)
    using weights_sorted(3) m(2,3) by (simp only: sum.case, intro scaled_nondecreasing) simp_all
qed

lemma k_nondecreasing:
  assumes "finite_nonneg (K2O_pct s) \<or> K2O_pct s = NaN"
  shows "nondecreasing (synthetic_results s) ''K+''"
proof -
  obtain m where m: "cmul (cell_or (K2O_pct s) (Num (fl 2))) (Num (fl (3/100))) = Num m"
    "0 \<le> m" "m \<le> 2 ^ 1023"
    using max_release [OF assms, of "fl 2" "fl (3/100)"] factors_small by blast
  show ?thesis
    unfolding nondecreasing_def synthetic_columns k_values_def k_weights_def Let_def k2o_pct_def m(1)
    using weights_sorted(4) m(2,3) by (simp only: sum.case, intro scaled_nondecreasing) simp_all
qed

text \<open>The cation columns are the scaled series.\<close>

lemma cation_columns:
  "column (synthetic_results s) ''Ca+2'' =
     Inr (scaled (cell_or (CaO_pct s) (Num 5)) (8/100) [0, 1/10, 25/100, 45/100, 7/10, 9/10, 1])"
  "column (synthetic_results s) ''Mg+2'' =
     Inr (scaled (cell_or (MgO_pct s) (Num 3)) (6/100) [0, 8/100, 2/10, 4/10, 65/100, 85/100, 1])"
  "column (synthetic_results s) ''Na+'' =
     Inr (scaled (cell_or (Na2O_pct s) (Num 3)) (5/100) [0, 15/100, 35/100, 55/100, 75/100, 9/10, 1])"
  "column (synthetic_results s) ''K+'' =
     Inr (scaled (cell_or (K2O_pct s) (Num 2)) (3/100) [0, 1/10, 3/10, 5/10, 7/10, 85/100, 1])"
proof -
  have d: "fl 5 = 5" "fl 3 = 3" "fl 2 = 2" by (simp_all add: fl_eval)
  show "column (synthetic_results s) ''Ca+2'' =
     Inr (scaled (cell_or (CaO_pct s) (Num 5)) (8/100) [0, 1/10, 25/100, 45/100, 7/10, 9/10, 1])"
    by (simp only: synthetic_columns ca_values_def ca_weights_def cao_pct_def per_1000_def
        scaled_def Let_def d map_map o_def)
  show "column (synthetic_results s) ''Mg+2'' =
     Inr (scaled (cell_or (MgO_pct s) (Num 3)) (6/100) [0, 8/100, 2/10, 4/10, 65/100, 85/100, 1])"
    by (simp only: synthetic_columns mg_values_def mg_weights_def mgo_pct_def per_1000_def
        scaled_def Let_def d map_map o_def)
  show "column (synthetic_results s) ''Na+'' =
     Inr (scaled (cell_or (Na2O_pct s) (Num 3)) (5/100) [0, 15/100, 35/100, 55/100, 75/100, 9/10, 1])"
    by (simp only: synthetic_columns na_values_def na_weights_def na2o_pct_def per_1000_def
        scaled_def Let_def d map_map o_def)
  show "column (synthetic_results s) ''K+'' =
     Inr (scaled (cell_or (K2O_pct s) (Num 2)) (3/100) [0, 1/10, 3/10, 5/10, 7/10, 85/100, 1])"
    by (simp only: synthetic_columns k_values_def k_weights_def k2o_pct_def per_1000_def
        scaled_def Let_def d map_map o_def)
qed

lemma unit_weights:
  "\<forall>w\<in>set [0, 1/10, 25/100, 45/100, 7/10, 9/10, (1::rat)]. 0 \<le> w \<and> w \<le> 1"
  "\<forall>w\<in>set [0, 8/100, 2/10, 4/10, 65/100, 85/100, (1::rat)]. 0 \<le> w \<and> w \<le> 1"
  "\<forall>w\<in>set [0, 15/100, 35/100, 55/100, 75/100, 9/10, (1::rat)]. 0 \<le> w \<and> w \<le> 1"
  "\<forall>w\<in>set [0, 1/10, 3/10, 5/10, 7/10, 85/100, (1::rat)]. 0 \<le> w \<and> w \<le> 1"
  by simp_all

lemma cation_columns_mono:
  "finite_nonneg (CaO_pct s) \<Longrightarrow> finite_nonneg (CaO_pct s') \<Longrightarrow> cle (CaO_pct s) (CaO_pct s') \<Longrightarrow>
     column_le (synthetic_results s) (synthetic_results s') ''Ca+2''"
  "finite_nonneg (MgO_pct s) \<Longrightarrow> finite_nonneg (MgO_pct s') \<Longrightarrow> cle (MgO_pct s) (MgO_pct s') \<Longrightarrow>
     column_le (synthetic_results s) (synthetic_results s') ''Mg+2''"
  "finite_nonneg (Na2O_pct s) \<Longrightarrow> finite_nonneg (Na2O_pct s') \<Longrightarrow> cle (Na2O_pct s) (Na2O_pct s') \<Longrightarrow>
     column_le (synthetic_results s) (synthetic_results s') ''Na+''"
  "finite_nonneg (K2O_pct s) \<Longrightarrow> finite_nonneg (K2O_pct s') \<Longrightarrow> cle (K2O_pct s) (K2O_pct s') \<Longrightarrow>
     column_le (synthetic_results s) (synthetic_results s') ''K+''"
proof -
  have n: "finite_nonneg c \<Longrightarrow> cell_or c d = c" for c d
    by (cases c) (simp_all add: cell_or_def)
  show "finite_nonneg (CaO_pct s) \<Longrightarrow> finite_nonneg (CaO_pct s') \<Longrightarrow> cle (CaO_pct s) (CaO_pct s') \<Longrightarrow>
     column_le (synthetic_results s) (synthetic_results s') ''Ca+2''"
    using scaled_mono [OF _ _ _ factors_small(1) unit_weights(1)]
    by (simp add: column_le_def cation_columns n)
  show "finite_nonneg (MgO_pct s) \<Longrightarrow> finite_nonneg (MgO_pct s') \<Longrightarrow> cle (MgO_pct s) (MgO_pct s') \<Longrightarrow>
     column_le (synthetic_results s) (synthetic_results s') ''Mg+2''"
    using scaled_mono [OF _ _ _ factors_small(2) unit_weights(2)]
    by (simp add: column_le_def cation_columns n)
  show "finite_nonneg (Na2O_pct s) \<Longrightarrow> finite_nonneg (Na2O_pct s') \<Longrightarrow> cle (Na2O_pct s) (Na2O_pct s') \<Longrightarrow>
     column_le (synthetic_results s) (synthetic_results s') ''Na+''"
    using scaled_mono [OF _ _ _ factors_small(3) unit_weights(3)]
    by (simp add: column_le_def cation_columns n)
  show "finite_nonneg (K2O_pct s) \<Longrightarrow> finite_nonneg (K2O_pct s') \<Longrightarrow> cle (K2O_pct s) (K2O_pct s') \<Longrightarrow>
     column_le (synthetic_results s) (synthetic_results s') ''K+''"
    using scaled_mono [OF _ _ _ factors_small(4) unit_weights(4)]
    by (simp add: column_le_def cation_columns n)
qed

lemma cell_at_scaled:
  "column df name = Inr (scaled c k ws) \<Longrightarrow> i < length ws \<Longrightarrow>
     cell_at df name i = cdiv (cmul (cmul c (Num (fl k))) (Num (fl (ws ! i)))) (Num 1000)"
  by (simp add: scaled_def)

text \<open>The last cells of the cation columns of the example samples.\<close>

lemma last_cation_cells:
  "cell_at (synthetic_results basalt) ''Ca+2'' 6 = Num (654859414616689 / 1152921504606846976)"
  "cell_at (synthetic_results limestone) ''Ca+2'' 6 = Num (1152921504606847 / 288230376151711744)"
  "cell_at (synthetic_results basalt) ''Mg+2'' 6 = Num (1106804644422573 / 4611686018427387904)"
  "cell_at (synthetic_results magnesian) ''Mg+2'' 6 = Num (1106804644422573 / 2305843009213693952)"
  "cell_at (synthetic_results basalt) ''Na+'' 6 = Num (2859245331424981 / 18446744073709551616)"
  "cell_at (synthetic_results sodic) ''Na+'' 6 = Num (2859245331424981 / 9223372036854775808)"
  "cell_at (synthetic_results basalt) ''K+'' 6 = Num (2656331146614175 / 73786976294838206464)"
  "cell_at (synthetic_results potassic) ''K+'' 6 = Num (2656331146614175 / 36893488147419103232)"
  by (simp_all add: cell_at_scaled [OF cation_columns(1)] cell_at_scaled [OF cation_columns(2)]
      cell_at_scaled [OF cation_columns(3)] cell_at_scaled [OF cation_columns(4)]
      basalt_def limestone_def magnesian_def sodic_def potassic_def fl_eval cell_or_def rnd_small
      del: cell_at.simps)

text \<open>An infinite oxide: the first weight is zero, and zero times infinity is NaN.\<close>

lemma infinite_oxide_column:
  "column (synthetic_results infinite_lime) ''Ca+2'' = Inr [NaN, PInf, PInf, PInf, PInf, PInf, PInf]"
  by (simp add: cation_columns scaled_def infinite_lime_def basalt_def fl_eval cell_eval)

lemma carbonate_series_eval:
  "per_1000 (map Num hco3_values) = map Num [7378697629483821 / 147573952589676412928,
     5534023222112865 / 18446744073709551616, 7378697629483821 / 9223372036854775808,
     3458764513820541 / 2305843009213693952, 5764607523034235 / 2305843009213693952,
     8762203435012037 / 2305843009213693952, 1498797955988901 / 288230376151711744]"
  "per_1000 (map Num co3_values) = map Num [0, 5902958103587057 / 590295810358705651712,
     1106804644422573 / 36893488147419103232, 5902958103587057 / 73786976294838206464,
     5534023222112865 / 36893488147419103232, 1152921504606847 / 4611686018427387904,
     7378697629483821 / 18446744073709551616]"
  "per_1000 alkalinity = map Num [7378697629483821 / 147573952589676412928,
     5902958103587057 / 18446744073709551616, 1983024987923777 / 2305843009213693952,
     956924848823683 / 576460752303423488, 6456360425798343 / 2305843009213693952,
     2478781234904721 / 576460752303423488, 3458764513820541 / 576460752303423488]"
  by (simp_all add: per_1000_def hco3_values_def co3_values_def alkalinity_def fl_eval cell_eval)

lemma alk_excess_synthetic:
  "map (alk_excess (synthetic_results s)) [0, 1, 2, 3, 4, 5, 6] =
     [Some 0, Some (1 / 2 ^ 64), Some 0, Some 0, Some 0, Some 0, Some 0]"
  by (simp add: alk_excess_def synthetic_columns carbonate_series_eval fl_eval)

section \<open>Traces of the steps\<close>

lemma proj_append:
  "steps (t @ u) = steps t @ steps u"
  "reads (t @ u) = reads t @ reads u"
  "writes (t @ u) = writes t @ writes u"
  "attempted (t @ u) = attempted t @ attempted u"
  by (simp_all add: steps_def reads_def writes_def attempted_def)

lemma proj_Cons:
  "steps (ev # t) = step_of ev @ steps t"
  "reads (ev # t) = read_of ev @ reads t"
  "writes (ev # t) = written_of ev @ writes t"
  "attempted (ev # t) = database_of ev @ attempted t"
  by (simp_all add: steps_def reads_def writes_def attempted_def)

lemma proj_Nil:
  "steps [] = []" "reads [] = []" "writes [] = []" "attempted [] = []"
  by (simp_all add: steps_def reads_def writes_def attempted_def)

lemmas proj = proj_append proj_Cons proj_Nil

lemma try_databases_attempted:
  "attempted (fst (try_databases load ps)) =
     takeWhile (\<lambda>f. \<not> load f) ps @ take 1 (dropWhile (\<lambda>f. \<not> load f) ps)"
  by (induction ps) (auto simp: proj split: prod.splits)

lemma try_databases_loaded:
  "snd (try_databases load ps) = list_ex load ps"
  by (induction ps) (auto split: prod.splits)

lemma try_databases_other:
  "steps (fst (try_databases load ps)) = []"
  "reads (fst (try_databases load ps)) = []"
  "writes (fst (try_databases load ps)) = []"
  "filter late (fst (try_databases load ps)) = []"
  "count_list (fst (try_databases load ps)) LoadPackageDatabase = 0"
  by (induction ps) (auto simp: proj split: prod.splits)

lemma first_success_prefix: "prefix (takeWhile P xs @ take 1 (dropWhile P xs)) xs"
proof -
  have "prefix (takeWhile P xs @ take 1 (dropWhile P xs)) (takeWhile P xs @ dropWhile P xs)"
    by (simp only: same_prefix_prefix take_is_prefix)
  then show ?thesis by (simp only: takeWhile_dropWhile_id)
qed

lemma list_ex_not_all: "list_ex P xs = (\<not> list_all (\<lambda>x. \<not> P x) xs)"
  by (induction xs) simp_all

lemma try_databases_trace:
  "fst (try_databases load ps) = map LoadDatabase (attempted (fst (try_databases load ps)))"
  by (induction ps) (auto simp: proj split: prod.splits)

lemma database_paths_distinct: "distinct database_paths \<and> length database_paths = 7"
  by (simp add: database_paths_def)

lemma init_engine_attempted:
  "attempted (fst (init_engine e)) =
     (if engine_init e
      then takeWhile (\<lambda>f. \<not> load_database e f) database_paths @
        take 1 (dropWhile (\<lambda>f. \<not> load_database e f) database_paths)
      else [])"
  using try_databases_attempted [of "load_database e" database_paths]
  by (auto simp: init_engine_def proj split: prod.splits)

lemma init_engine_use_synthetic:
  "snd (init_engine e) =
     (\<not> engine_init e \<or>
      (list_all (\<lambda>f. \<not> load_database e f) database_paths \<and> \<not> load_package_database e))"
  using try_databases_loaded [of "load_database e" database_paths]
  by (auto simp: init_engine_def list_ex_not_all split: prod.splits)

lemma init_engine_trace:
  "fst (init_engine e) =
     [Begin InitSolver, EngineInit] @ map LoadDatabase (attempted (fst (init_engine e))) @
     (if engine_init e \<and> list_all (\<lambda>f. \<not> load_database e f) database_paths
      then [LoadPackageDatabase] else [])"
  using try_databases_loaded [of "load_database e" database_paths]
    try_databases_trace [of "load_database e" database_paths]
  by (auto simp: init_engine_def proj list_ex_not_all split: prod.splits)

section \<open>Step 4 and the runs that take the synthetic branch\<close>

lemma simulate_unavailable:
  "unavailable e s \<Longrightarrow> snd (simulate e (snd (init_engine e)) s) = None"
  by (auto simp: simulate_def unavailable_def init_engine_use_synthetic Let_def
      split: option.splits selected_output.splits)

lemma results_of_fallback:
  "snd (simulate e u s) = None \<Longrightarrow>
   results_of e u s = (fst (simulate e u s) @ [Synthetic], synthetic_results s, False)"
  by (cases "simulate e u s") (simp add: results_of_def)

lemma make_frame_nrows: "make_frame parse columns data = Some df \<Longrightarrow> nrows df = length data"
  by (auto simp: make_frame_def split: if_splits)

lemma results_of_nonempty: "0 < nrows (fst (snd (results_of e u s)))"
proof (cases "snd (simulate e u s)")
  case None
  then show ?thesis by (simp add: results_of_fallback synthetic_results_def)
next
  case (Some df)
  then have r: "results_of e u s = (fst (simulate e u s), df, True)"
    by (cases "simulate e u s") (simp add: results_of_def)
  from Some have "0 < nrows df"
    by (auto simp: simulate_def Let_def make_frame_nrows
        split: if_splits option.splits selected_output.splits)
  then show ?thesis by (simp add: r)
qed

lemma synthetic_shape:
  "nrows (synthetic_results s) = 7 \<and>
   map (\<lambda>c. length (snd c)) (cols (synthetic_results s)) = replicate 12 7"
  by (simp add: synthetic_results_def per_1000_def pH_values_def ca_values_def mg_values_def
      na_values_def k_values_def ca_weights_def mg_weights_def na_weights_def k_weights_def
      si_values_def hco3_values_def co3_values_def calcite_si_def dolomite_si_def gibbsite_si_def
      alkalinity_def Let_def numeral_eq_Suc)

lemma make_report_synthetic:
  "analysis (synthetic_results s) = Inr k \<Longrightarrow> \<exists>r. make_report majors s k = Inr r"
  by (auto simp: analysis_synthetic make_report_def)

lemma run_fallback:
  assumes m: "majors_csv e = Some majors" and s: "select_sample majors = Some s"
    and f: "snd (simulate e (snd (init_engine e)) s) = None"
  shows "\<exists>r. run e =
    (fst (load_data e) @ fst (init_engine e) @ fst (simulate e (snd (init_engine e)) s) @
     [Synthetic, Begin Statistics] @ visualize e False (synthetic_results s) @
     [Begin WriteReport, WriteFile report_path], Completed r)"
proof -
  obtain k where k: "analysis (synthetic_results s) = Inr k"
    by (simp add: analysis_synthetic)
  obtain r where r: "make_report majors s k = Inr r"
    using make_report_synthetic [OF k] by blast
  have l: "load_data e = (fst (load_data e), Some majors)"
    using m by (simp add: load_data_def)
  obtain t2 u where i: "init_engine e = (t2, u)" by (cases "init_engine e")
  have res: "results_of e u s = (fst (simulate e u s) @ [Synthetic], synthetic_results s, False)"
    using f i by (simp add: results_of_fallback)
  have "run e =
    (fst (load_data e) @ t2 @ fst (simulate e u s) @
     [Synthetic, Begin Statistics] @ visualize e False (synthetic_results s) @
     [Begin WriteReport, WriteFile report_path], Completed r)"
    using m by (simp add: run_def process_def load_data_def i s res k r)
  then show ?thesis using i by simp
qed

lemma select_examples:
  "select_sample [incomplete, basalt, granite] = Some basalt"
  "select_sample [incomplete, incomplete\<lparr>DDPD_ID := 5\<rparr>] = None"
  by (simp_all add: select_sample_def complete_def incomplete_def basalt_def)

lemma with_engine_frame:
  "results_of with_engine False basalt =
     ([Begin BuildQuery, Begin RunOrFallback, RunString],
      \<lparr>nrows = 1, cols = [(''pH'', [Num 7]), (''m_Ca+2(mol/kgw)'', [Num (1/1000)]),
         (''m_Mg+2(mol/kgw)'', [NaN])]\<rparr>, True)"
  by (simp add: results_of_def simulate_def with_engine_def no_engine_def engine_output_def
      make_frame_def entry_def Let_def upt_rec)

section \<open>Traces of a run\<close>

lemma load_data_proj:
  "steps (fst (load_data e)) = [LoadInputs]"
  "reads (fst (load_data e)) =
     (if majors_csv e = None then [majors_path] else [majors_path, mineralogy_path, trace_path])"
  "writes (fst (load_data e)) = []"
  "filter late (fst (load_data e)) = []"
  "snd (load_data e) = majors_csv e"
  by (simp_all add: load_data_def proj split: option.splits)

lemma init_engine_proj:
  "steps (fst (init_engine e)) = [InitSolver]"
  "reads (fst (init_engine e)) = []"
  "writes (fst (init_engine e)) = []"
  "filter late (fst (init_engine e)) = []"
  using try_databases_other [of "load_database e" database_paths]
  by (auto simp: init_engine_def proj split: prod.splits)

lemma simulate_proj:
  "steps (fst (simulate e u s)) = (if u then [RunOrFallback] else [BuildQuery, RunOrFallback])"
  "reads (fst (simulate e u s)) = []"
  "writes (fst (simulate e u s)) = []"
  by (auto simp: simulate_def proj Let_def split: option.splits selected_output.splits)

lemma results_of_proj:
  "steps (fst (results_of e u s)) = (if u then [RunOrFallback] else [BuildQuery, RunOrFallback])"
  "reads (fst (results_of e u s)) = []"
  "writes (fst (results_of e u s)) = []"
  using simulate_proj [of e u s]
  by (auto simp: results_of_def proj split: prod.splits option.splits)

lemma visualize_proj:
  "steps (visualize e ok df) = [Plot]"
  "reads (visualize e ok df) = []"
  "writes (visualize e ok df) = [] \<or> writes (visualize e ok df) = [figure_path]"
  by (auto simp: visualize_def proj)

text \<open>Steps 4 to 7 stop after the statistics, or after the template of the report, or go
  through.\<close>

lemma process_shape:
  "\<exists>t4 df ok. results_of e u s = (t4, df, ok) \<and>
     ((\<exists>err. process e majors u s = (t4 @ [Begin Statistics], Uncaught err)) \<or>
      (\<exists>err. process e majors u s =
         (t4 @ [Begin Statistics] @ visualize e ok df @ [Begin WriteReport], Uncaught err)) \<or>
      (\<exists>r. process e majors u s =
         (t4 @ [Begin Statistics] @ visualize e ok df @ [Begin WriteReport, WriteFile report_path],
          Completed r)))"
proof -
  obtain t4 df ok where r: "results_of e u s = (t4, df, ok)" by (cases "results_of e u s") auto
  show ?thesis
  proof (cases "analysis df")
    case (Inl err)
    then show ?thesis using r by (simp add: process_def)
  next
    case (Inr k)
    then show ?thesis using r by (cases "make_report majors s k") (simp_all add: process_def)
  qed
qed

lemma process_proj:
  "subseq (steps (fst (process e majors u s))) [BuildQuery, RunOrFallback, Statistics, Plot, WriteReport]"
  "(\<exists>r. snd (process e majors u s) = Completed r) \<longrightarrow>
     steps (fst (process e majors u s)) =
       (if u then [] else [BuildQuery]) @ [RunOrFallback, Statistics, Plot, WriteReport]"
  "reads (fst (process e majors u s)) = []"
  "subseq (writes (fst (process e majors u s))) [figure_path, report_path]"
proof -
  note sh = process_shape [where e = e and u = u and s = s and majors = majors]
  show "subseq (steps (fst (process e majors u s))) [BuildQuery, RunOrFallback, Statistics, Plot, WriteReport]"
    using sh results_of_proj(1) [of e u s] visualize_proj(1) by (auto simp: proj)
  show "(\<exists>r. snd (process e majors u s) = Completed r) \<longrightarrow>
     steps (fst (process e majors u s)) =
       (if u then [] else [BuildQuery]) @ [RunOrFallback, Statistics, Plot, WriteReport]"
    using sh results_of_proj(1) [of e u s] visualize_proj(1) by (auto simp: proj)
  show "reads (fst (process e majors u s)) = []"
    using sh results_of_proj(2) [of e u s] visualize_proj(2) by (auto simp: proj)
  obtain t4 df ok where r: "results_of e u s = (t4, df, ok)" by (cases "results_of e u s") auto
  have w4: "writes t4 = []" using results_of_proj(3) [of e u s] r by simp
  show "subseq (writes (fst (process e majors u s))) [figure_path, report_path]"
    using sh r w4 visualize_proj(3) [of e ok df] by (auto simp: proj)
qed

lemma run_shape:
  "run e =
     (case majors_csv e of
        None \<Rightarrow> (fst (load_data e), Exit 1)
      | Some majors \<Rightarrow>
          (case select_sample majors of
             None \<Rightarrow> (fst (load_data e) @ fst (init_engine e), Exit 1)
           | Some s \<Rightarrow>
               (fst (load_data e) @ fst (init_engine e) @
                  fst (process e majors (snd (init_engine e)) s),
                snd (process e majors (snd (init_engine e)) s))))"
  by (simp add: run_def load_data_def split: option.splits prod.splits)

lemma select_sample_Cons:
  "select_sample (r # rs) = (if complete r then Some r else select_sample rs)"
  by (simp add: select_sample_def Let_def)

lemma select_sample_None: "select_sample majors = None \<longleftrightarrow> list_all (\<lambda>r. \<not> complete r) majors"
  by (induction majors) (simp_all add: select_sample_Cons, simp add: select_sample_def)

lemma select_sample_first:
  "select_sample majors = Some s \<longleftrightarrow>
     (\<exists>pre post. majors = pre @ s # post \<and> list_all (\<lambda>r. \<not> complete r) pre \<and> complete s)"
proof (induction majors)
  case Nil
  then show ?case by (simp add: select_sample_def)
next
  case (Cons r rs)
  show ?case
  proof (cases "complete r")
    case True
    have "(\<exists>pre post. r # rs = pre @ s # post \<and> list_all (\<lambda>r. \<not> complete r) pre \<and> complete s)
        \<longleftrightarrow> r = s"
    proof
      assume "\<exists>pre post. r # rs = pre @ s # post \<and> list_all (\<lambda>r. \<not> complete r) pre \<and> complete s"
      then obtain pre post where p: "r # rs = pre @ s # post" "list_all (\<lambda>r. \<not> complete r) pre"
        by blast
      then show "r = s" using True by (cases pre) auto
    next
      assume "r = s"
      then have "r # rs = [] @ s # rs \<and> list_all (\<lambda>r. \<not> complete r) [] \<and> complete s"
        using True by simp
      then show "\<exists>pre post. r # rs = pre @ s # post \<and> list_all (\<lambda>r. \<not> complete r) pre \<and> complete s"
        by blast
    qed
    then show ?thesis using True by (simp add: select_sample_Cons)
  next
    case False
    have "(\<exists>pre post. r # rs = pre @ s # post \<and> list_all (\<lambda>r. \<not> complete r) pre \<and> complete s)
        \<longleftrightarrow> (\<exists>pre post. rs = pre @ s # post \<and> list_all (\<lambda>r. \<not> complete r) pre \<and> complete s)"
    proof
      assume "\<exists>pre post. r # rs = pre @ s # post \<and> list_all (\<lambda>r. \<not> complete r) pre \<and> complete s"
      then obtain pre post where p: "r # rs = pre @ s # post" "list_all (\<lambda>r. \<not> complete r) pre"
        "complete s" by blast
      then obtain pre' where "pre = r # pre'" using False by (cases pre) auto
      then have "rs = pre' @ s # post \<and> list_all (\<lambda>r. \<not> complete r) pre' \<and> complete s"
        using p by simp
      then show "\<exists>pre post. rs = pre @ s # post \<and> list_all (\<lambda>r. \<not> complete r) pre \<and> complete s"
        by blast
    next
      assume "\<exists>pre post. rs = pre @ s # post \<and> list_all (\<lambda>r. \<not> complete r) pre \<and> complete s"
      then obtain pre post where p: "rs = pre @ s # post" "list_all (\<lambda>r. \<not> complete r) pre"
        "complete s" by blast
      then have "r # rs = (r # pre) @ s # post \<and> list_all (\<lambda>r. \<not> complete r) (r # pre) \<and> complete s"
        using False by simp
      then show "\<exists>pre post. r # rs = pre @ s # post \<and> list_all (\<lambda>r. \<not> complete r) pre \<and> complete s"
        by blast
    qed
    then show ?thesis using False Cons.IH by (simp add: select_sample_Cons)
  qed
qed




lemma run_reads_writes:
  "reads (fst (run e)) =
     (if majors_csv e = None then [majors_path] else [majors_path, mineralogy_path, trace_path])"
  "subseq (writes (fst (run e))) [figure_path, report_path]"
  using process_proj(3,4)
  by (auto simp: run_shape proj load_data_proj init_engine_proj split: option.splits)

section \<open>Defaults and conversion\<close>

lemma defaults_exact:
  "fl 60 = 60" "fl 5 = 5" "fl 3 = 3" "fl 2 = 2" "fl 15 = 15"
  by (simp_all add: fl_eval)

lemma oxides_fill_defaults: "oxides (fill_defaults s) = oxides s"
  by (simp add: oxides_def fill_defaults_def defaults_exact cell_or_def)

lemma map_of_indexed:
  assumes "distinct ks" "i < length ks"
  shows "map_of (map (\<lambda>i. (ks ! i, f i)) [0..<length ks]) (ks ! i) = Some (f i)"
proof (rule map_of_is_SomeI)
  have "map fst (map (\<lambda>i. (ks ! i, f i)) [0..<length ks]) = map ((!) ks) [0..<length ks]"
    by simp
  also have "\<dots> = ks" by (rule map_nth)
  finally show "distinct (map fst (map (\<lambda>i. (ks ! i, f i)) [0..<length ks]))"
    using assms(1) by simp
  show "(ks ! i, f i) \<in> set (map (\<lambda>i. (ks ! i, f i)) [0..<length ks])"
    using assms(2) by auto
qed

lemma make_frame_cell:
  assumes "make_frame parse columns data = Some df" "i < length columns" "j < length data"
  shows "cell_at df (columns ! i) j =
    (if i < length (data ! j) then coerce parse (data ! j ! i) else NaN)"
proof -
  from assms(1) have d: "distinct columns"
    and df: "df = \<lparr>nrows = length data,
        cols = map (\<lambda>i. (columns ! i, map (\<lambda>r. entry parse r i) data)) [0..<length columns]\<rparr>"
    by (auto simp: make_frame_def split: if_splits)
  have "column df (columns ! i) = Inr (map (\<lambda>r. entry parse r i) data)"
    using map_of_indexed [OF d assms(2), of "\<lambda>i. map (\<lambda>r. entry parse r i) data"]
    by (simp add: column_def df)
  then show ?thesis using assms(3) by (simp add: entry_def)
qed

lemma synthetic_report:
  "\<exists>k r. analysis (synthetic_results s) = Inr k \<and>
      pH_change k = Num (fsub (fl 8) (fl (56/10))) \<and>
      make_report majors s k = Inr r \<and>
      pH_evolution r = (Num (56/10), Num 8, Num (24/10))"
proof -
  let ?k = "\<lparr>initial_pH = Num (hd pH_values), final_pH = Num (last pH_values),
       pH_change = csub (Num (last pH_values)) (Num (hd pH_values)),
       total_ca_release = cmul (last (per_1000 (ca_values s))) (Num 1000),
       total_mg_release = cmul (last (per_1000 (mg_values s))) (Num 1000),
       total_cation_release =
         cadd (cmul (last (per_1000 (ca_values s))) (Num 1000))
           (cmul (last (per_1000 (mg_values s))) (Num 1000)),
       co2_sequestration = cmul (cmul (last (per_1000 (map Num hco3_values))) (Num 1000)) (Num 44),
       alkalinity_generated = cmul (last (per_1000 alkalinity)) (Num 1000),
       final_si = Some (Num (last calcite_si), Num (last dolomite_si))\<rparr>"
  define k where "k = ?k"
  have k: "analysis (synthetic_results s) = Inr k"
    unfolding k_def by (rule analysis_synthetic)
  have ends: "hd pH_values = fl (56/10)" "last pH_values = fl 8"
    by (simp_all add: pH_values_def)
  have "csub (Num (fl 8)) (Num (fl (56/10))) = Num (fsub (fl 8) (fl (56/10)))"
    by (simp add: fl_eval cell_eval)
  then have 4: "pH_change k = Num (fsub (fl 8) (fl (56/10)))"
    using ends by (simp add: k_def)
  have si: "final_si k = Some (Num (last calcite_si), Num (last dolomite_si))"
    by (simp add: k_def)
  have pH: "initial_pH k = Num (fl (56/10))" "final_pH k = Num (fl 8)"
    using ends by (simp_all add: k_def)
  obtain r where r: "make_report majors s k = Inr r"
    by (simp add: make_report_def si)
  have "pH_evolution r = (cfmt 2 (initial_pH k), cfmt 2 (final_pH k), cfmt 2 (pH_change k))"
    using r by (simp add: make_report_def si) auto
  also have "\<dots> = (Num (56/10), Num 8, Num (24/10))"
    by (simp add: pH 4 fl_eval)
  finally show ?thesis using 4 k r by blast
qed

section \<open>Claims\<close>

text \<open>
  C1. Whenever the engine is unavailable for the sample (it cannot be created, no database
  loads, the run raises, or the returned array has at most one row), step 4 yields the
  synthetic series of the sample, with \<open>simulation_success\<close> false. That table has 7 rows and
  12 columns of 7 cells. Whatever the environment, the table that step 4 hands on has at
  least one row. A run that reaches step 4 with an unavailable engine goes through the
  synthetic branch and ends with the report written.
\<close>

theorem fallback_when_unavailable:
  assumes "unavailable e s"
  shows "snd (results_of e (snd (init_engine e)) s) = (synthetic_results s, False) \<and>
    nrows (synthetic_results s) = 7 \<and>
    map (\<lambda>c. length (snd c)) (cols (synthetic_results s)) = replicate 12 7 \<and>
    0 < nrows (fst (snd (results_of e u s'))) \<and>
    (majors_csv e = Some majors \<and> select_sample majors = Some s \<longrightarrow>
      (\<exists>t r. run e = (t, Completed r) \<and> Synthetic \<in> set t \<and> WriteFile report_path \<in> set t))"
proof -
  have f: "snd (simulate e (snd (init_engine e)) s) = None"
    using assms by (rule simulate_unavailable)
  then have 1: "snd (results_of e (snd (init_engine e)) s) = (synthetic_results s, False)"
    by (simp add: results_of_fallback)
  have 2: "majors_csv e = Some majors \<and> select_sample majors = Some s \<longrightarrow>
      (\<exists>t r. run e = (t, Completed r) \<and> Synthetic \<in> set t \<and> WriteFile report_path \<in> set t)"
  proof
    assume "majors_csv e = Some majors \<and> select_sample majors = Some s"
    then obtain r where "run e =
      (fst (load_data e) @ fst (init_engine e) @ fst (simulate e (snd (init_engine e)) s) @
       [Synthetic, Begin Statistics] @ visualize e False (synthetic_results s) @
       [Begin WriteReport, WriteFile report_path], Completed r)"
      using run_fallback [OF _ _ f] by blast
    then show "\<exists>t r. run e = (t, Completed r) \<and> Synthetic \<in> set t \<and> WriteFile report_path \<in> set t"
      by simp
  qed
  show ?thesis using 1 2 synthetic_shape [of s] results_of_nonempty [of e u s'] by blast
qed

theorem fallback_when_unavailable_witness:
  "unavailable no_engine basalt \<and>
   snd (results_of no_engine (snd (init_engine no_engine)) basalt) = (synthetic_results basalt, False) \<and>
   majors_csv no_engine = Some [incomplete, basalt, granite] \<and>
   select_sample [incomplete, basalt, granite] = Some basalt \<and>
   (\<exists>t r. run no_engine = (t, Completed r) \<and> Synthetic \<in> set t \<and> WriteFile report_path \<in> set t)"
proof -
  have u: "unavailable no_engine basalt" by (simp add: unavailable_def no_engine_def)
  have m: "majors_csv no_engine = Some [incomplete, basalt, granite]" by (simp add: no_engine_def)
  show ?thesis
    using fallback_when_unavailable [OF u, where majors = "[incomplete, basalt, granite]"]
      u m select_examples(1) by simp
qed

text \<open>
  C2 does not hold of the script. The data load succeeds, a sample is complete, the engine is
  created, its fifth database loads and the run returns one row under the headings the engine
  gives to molalities. Step 5 then reads the column \<open>Ca+2\<close> without a test; no handler
  encloses step 5, so the run ends in an uncaught \<open>KeyError\<close> and neither the figure nor the
  report is written.
\<close>

theorem report_not_reached:
  "run with_engine =
     ([Begin LoadInputs, ReadCsv majors_path, ReadCsv mineralogy_path, ReadCsv trace_path,
       Begin InitSolver, EngineInit] @ map LoadDatabase (take 5 database_paths) @
      [Begin BuildQuery, Begin RunOrFallback, RunString, Begin Statistics],
      Uncaught (KeyError ''Ca+2''))"
proof -
  have i: "init_engine with_engine =
      ([Begin InitSolver, EngineInit] @ map LoadDatabase (take 5 database_paths), False)"
    by (simp add: init_engine_def with_engine_def no_engine_def database_paths_def)
  have a: "\<And>n. analysis \<lparr>nrows = n, cols = [(''pH'', [Num 7]), (''m_Ca+2(mol/kgw)'', [Num (1/1000)]),
         (''m_Mg+2(mol/kgw)'', [NaN])]\<rparr> = Inl (KeyError ''Ca+2'')"
    by (simp add: analysis_def first_of_def last_of_def column_def iloc_first_def iloc_last_def)
  have m: "majors_csv with_engine = Some [incomplete, basalt, granite]"
    by (simp add: with_engine_def no_engine_def)
  show ?thesis
    by (simp add: run_def process_def load_data_def m i select_examples with_engine_frame a)
qed

text \<open>
  When the table has the columns \<open>pH\<close>, \<open>Ca+2\<close> and \<open>Mg+2\<close> but no column \<open>si_Calcite\<close>, step 5
  succeeds without binding \<open>final_calcite_si\<close>, the figure fails on the unbound \<open>cao_pct\<close>
  (caught), and the template of the report raises an uncaught \<open>NameError\<close>.
\<close>

lemma report_not_reached_no_si:
  "run with_engine_no_si =
     ([Begin LoadInputs, ReadCsv majors_path, ReadCsv mineralogy_path, ReadCsv trace_path,
       Begin InitSolver, EngineInit] @ map LoadDatabase (take 5 database_paths) @
      [Begin BuildQuery, Begin RunOrFallback, RunString, Begin Statistics, Begin Plot,
       Begin WriteReport],
      Uncaught (NameError ''final_calcite_si''))"
proof -
  have i: "init_engine with_engine_no_si =
      ([Begin InitSolver, EngineInit] @ map LoadDatabase (take 5 database_paths), False)"
    by (simp add: init_engine_def with_engine_no_si_def with_engine_def no_engine_def
        database_paths_def)
  let ?df = "\<lparr>nrows = Suc 0, cols = [(''pH'', [Num 7]), (''Ca+2'', [Num (1/1000)]), (''Mg+2'', [NaN])]\<rparr>"
  have f: "results_of with_engine_no_si False basalt =
      ([Begin BuildQuery, Begin RunOrFallback, RunString], ?df, True)"
    by (simp add: results_of_def simulate_def with_engine_no_si_def with_engine_def no_engine_def
        make_frame_def entry_def Let_def upt_rec)
  have a: "analysis ?df = Inr \<lparr>initial_pH = Num 7, final_pH = Num 7, pH_change = Num 0,
      total_ca_release = Num 1, total_mg_release = NaN,
      total_cation_release = NaN, co2_sequestration = Num 0, alkalinity_generated = Num 0,
      final_si = None\<rparr>"
    by (simp add: analysis_def first_of_def last_of_def column_def iloc_first_def iloc_last_def
        carbonate_def saturation_def has_column_def csub_def rnd_small fl_one)
       (simp add: fl_def)
  have v: "visualize with_engine_no_si True ?df = [Begin Plot]"
    by (simp add: visualize_def has_column_def)
  have m: "majors_csv with_engine_no_si = Some [incomplete, basalt, granite]"
    by (simp add: with_engine_no_si_def with_engine_def no_engine_def)
  show ?thesis
    by (simp add: run_def process_def load_data_def m i select_examples f a v make_report_def)
qed

text \<open>
  C3, as stated, fails: the synthetic table changes with each of the oxides CaO, MgO, Na2O and
  K2O. Raising the CaO of a sample from 7.1 to 50 raises the last \<open>Ca+2\<close> value from 0.000568 to
  0.004, and doubling its MgO (4), its Na2O (3.1) or its K2O (1.2) alone doubles the last value
  of \<open>Mg+2\<close>, \<open>Na+\<close> or \<open>K+\<close>.
\<close>

theorem synthetic_static_counterexample:
  "cao_pct basalt = Num (3996944669291315 / 562949953421312) \<and> cao_pct limestone = Num 50 \<and>
   cell_at (synthetic_results basalt) ''Ca+2'' 6 = Num (654859414616689 / 1152921504606846976) \<and>
   cell_at (synthetic_results limestone) ''Ca+2'' 6 = Num (4611686018427388 / 1152921504606846976) \<and>
   synthetic_results basalt \<noteq> synthetic_results limestone \<and>
   cell_at (synthetic_results basalt) ''Mg+2'' 6 = Num (1106804644422573 / 4611686018427387904) \<and>
   cell_at (synthetic_results magnesian) ''Mg+2'' 6 = Num (1106804644422573 / 2305843009213693952) \<and>
   synthetic_results basalt \<noteq> synthetic_results magnesian \<and>
   cell_at (synthetic_results basalt) ''Na+'' 6 = Num (2859245331424981 / 18446744073709551616) \<and>
   cell_at (synthetic_results sodic) ''Na+'' 6 = Num (2859245331424981 / 9223372036854775808) \<and>
   synthetic_results basalt \<noteq> synthetic_results sodic \<and>
   cell_at (synthetic_results basalt) ''K+'' 6 = Num (2656331146614175 / 73786976294838206464) \<and>
   cell_at (synthetic_results potassic) ''K+'' 6 = Num (2656331146614175 / 36893488147419103232) \<and>
   synthetic_results basalt \<noteq> synthetic_results potassic"
proof -
  note c = last_cation_cells
  have d: "cell_at df name i \<noteq> cell_at df' name i \<Longrightarrow> df \<noteq> df'" for df df' name i
    by auto
  have 1: "synthetic_results basalt \<noteq> synthetic_results limestone"
    by (rule d [where name = "''Ca+2''" and i = 6]) (simp only: c, simp)
  have 2: "synthetic_results basalt \<noteq> synthetic_results magnesian"
    by (rule d [where name = "''Mg+2''" and i = 6]) (simp only: c, simp)
  have 3: "synthetic_results basalt \<noteq> synthetic_results sodic"
    by (rule d [where name = "''Na+''" and i = 6]) (simp only: c, simp)
  have 4: "synthetic_results basalt \<noteq> synthetic_results potassic"
    by (rule d [where name = "''K+''" and i = 6]) (simp only: c, simp)
  have o: "cao_pct basalt = Num (3996944669291315 / 562949953421312)" "cao_pct limestone = Num 50"
    by (simp_all add: cao_pct_def cell_or_def basalt_def limestone_def fl_eval)
  have l: "cell_at (synthetic_results limestone) ''Ca+2'' 6 = Num (4611686018427388 / 1152921504606846976)"
    by (simp only: c) simp
  show ?thesis using o c(1) l 1 c(3,4) 2 c(5,6) 3 c(7,8) 4 by (intro conjI)
qed

text \<open>
  C3, amended. The columns \<open>pH\<close>, \<open>SiO2\<close>, \<open>HCO3-\<close>, \<open>CO3-2\<close>, \<open>si_Calcite\<close>, \<open>si_Dolomite\<close>,
  \<open>si_Gibbsite\<close> and \<open>Alk\<close> of the synthetic table are the same for any two samples. Each cell of
  the columns \<open>Ca+2\<close>, \<open>Mg+2\<close>, \<open>Na+\<close> and \<open>K+\<close> is the CaO, MgO, Na2O or K2O percentage of the
  sample (5, 3, 3 or 2 when it is missing) times 0.08, 0.06, 0.05 or 0.03, times the weight of
  the reaction step, divided by 1000, in binary64 arithmetic; and of two samples with finite
  non-negative percentages, the one with the larger percentage has the column that is nowhere
  smaller. So the table depends on the sample through these four percentages only: two
  samples that agree on them get the same table, whatever their other columns.
\<close>

theorem synthetic_depends_on_four_oxides:
  "(CaO_pct s = CaO_pct s' \<and> MgO_pct s = MgO_pct s' \<and> Na2O_pct s = Na2O_pct s' \<and>
    K2O_pct s = K2O_pct s' \<longrightarrow> synthetic_results s = synthetic_results s') \<and>
   map (column (synthetic_results s))
     [''pH'', ''SiO2'', ''HCO3-'', ''CO3-2'', ''si_Calcite'', ''si_Dolomite'', ''si_Gibbsite'', ''Alk''] =
   map (column (synthetic_results s'))
     [''pH'', ''SiO2'', ''HCO3-'', ''CO3-2'', ''si_Calcite'', ''si_Dolomite'', ''si_Gibbsite'', ''Alk''] \<and>
   column (synthetic_results s) ''Ca+2'' =
     Inr (scaled (cell_or (CaO_pct s) (Num 5)) (8/100) [0, 1/10, 25/100, 45/100, 7/10, 9/10, 1]) \<and>
   column (synthetic_results s) ''Mg+2'' =
     Inr (scaled (cell_or (MgO_pct s) (Num 3)) (6/100) [0, 8/100, 2/10, 4/10, 65/100, 85/100, 1]) \<and>
   column (synthetic_results s) ''Na+'' =
     Inr (scaled (cell_or (Na2O_pct s) (Num 3)) (5/100) [0, 15/100, 35/100, 55/100, 75/100, 9/10, 1]) \<and>
   column (synthetic_results s) ''K+'' =
     Inr (scaled (cell_or (K2O_pct s) (Num 2)) (3/100) [0, 1/10, 3/10, 5/10, 7/10, 85/100, 1]) \<and>
   (finite_nonneg (CaO_pct s) \<and> finite_nonneg (CaO_pct s') \<and> cle (CaO_pct s) (CaO_pct s') \<longrightarrow>
      column_le (synthetic_results s) (synthetic_results s') ''Ca+2'') \<and>
   (finite_nonneg (MgO_pct s) \<and> finite_nonneg (MgO_pct s') \<and> cle (MgO_pct s) (MgO_pct s') \<longrightarrow>
      column_le (synthetic_results s) (synthetic_results s') ''Mg+2'') \<and>
   (finite_nonneg (Na2O_pct s) \<and> finite_nonneg (Na2O_pct s') \<and> cle (Na2O_pct s) (Na2O_pct s') \<longrightarrow>
      column_le (synthetic_results s) (synthetic_results s') ''Na+'') \<and>
   (finite_nonneg (K2O_pct s) \<and> finite_nonneg (K2O_pct s') \<and> cle (K2O_pct s) (K2O_pct s') \<longrightarrow>
      column_le (synthetic_results s) (synthetic_results s') ''K+'')"
proof -
  have 1: "CaO_pct s = CaO_pct s' \<and> MgO_pct s = MgO_pct s' \<and> Na2O_pct s = Na2O_pct s' \<and>
    K2O_pct s = K2O_pct s' \<longrightarrow> synthetic_results s = synthetic_results s'"
    by (simp add: synthetic_results_def ca_values_def mg_values_def na_values_def k_values_def
        cao_pct_def mgo_pct_def na2o_pct_def k2o_pct_def)
  have 2: "map (column (synthetic_results s))
     [''pH'', ''SiO2'', ''HCO3-'', ''CO3-2'', ''si_Calcite'', ''si_Dolomite'', ''si_Gibbsite'', ''Alk''] =
   map (column (synthetic_results s'))
     [''pH'', ''SiO2'', ''HCO3-'', ''CO3-2'', ''si_Calcite'', ''si_Dolomite'', ''si_Gibbsite'', ''Alk'']"
    by (simp add: synthetic_columns)
  show ?thesis
    using 1 2 cation_columns [of s] cation_columns_mono [of s s'] by (intro conjI impI) simp_all
qed

theorem synthetic_depends_on_four_oxides_witness:
  "CaO_pct basalt = CaO_pct granite \<and> MgO_pct basalt = MgO_pct granite \<and>
   Na2O_pct basalt = Na2O_pct granite \<and> K2O_pct basalt = K2O_pct granite \<and>
   SiO2_pct basalt \<noteq> SiO2_pct granite \<and> Fe2O3_pct basalt \<noteq> Fe2O3_pct granite \<and>
   synthetic_results basalt = synthetic_results granite \<and>
   finite_nonneg (CaO_pct basalt) \<and> finite_nonneg (CaO_pct limestone) \<and>
   cle (CaO_pct basalt) (CaO_pct limestone) \<and>
   column_le (synthetic_results basalt) (synthetic_results limestone) ''Ca+2'' \<and>
   finite_nonneg (MgO_pct basalt) \<and> finite_nonneg (MgO_pct magnesian) \<and>
   cle (MgO_pct basalt) (MgO_pct magnesian) \<and>
   column_le (synthetic_results basalt) (synthetic_results magnesian) ''Mg+2'' \<and>
   finite_nonneg (Na2O_pct basalt) \<and> finite_nonneg (Na2O_pct sodic) \<and>
   cle (Na2O_pct basalt) (Na2O_pct sodic) \<and>
   column_le (synthetic_results basalt) (synthetic_results sodic) ''Na+'' \<and>
   finite_nonneg (K2O_pct basalt) \<and> finite_nonneg (K2O_pct potassic) \<and>
   cle (K2O_pct basalt) (K2O_pct potassic) \<and>
   column_le (synthetic_results basalt) (synthetic_results potassic) ''K+''"
proof -
  have d: "SiO2_pct basalt \<noteq> SiO2_pct granite" "Fe2O3_pct basalt \<noteq> Fe2O3_pct granite"
    by (simp_all add: basalt_def granite_def fl_eval)
  have e: "CaO_pct basalt = CaO_pct granite" "MgO_pct basalt = MgO_pct granite"
    "Na2O_pct basalt = Na2O_pct granite" "K2O_pct basalt = K2O_pct granite"
    by (simp_all add: basalt_def granite_def)
  have f: "finite_nonneg (CaO_pct basalt)" "finite_nonneg (CaO_pct limestone)"
    "finite_nonneg (MgO_pct basalt)" "finite_nonneg (MgO_pct magnesian)"
    "finite_nonneg (Na2O_pct basalt)" "finite_nonneg (Na2O_pct sodic)"
    "finite_nonneg (K2O_pct basalt)" "finite_nonneg (K2O_pct potassic)"
    by (simp_all add: basalt_def limestone_def magnesian_def sodic_def potassic_def fl_eval)
  have l: "cle (CaO_pct basalt) (CaO_pct limestone)" "cle (MgO_pct basalt) (MgO_pct magnesian)"
    "cle (Na2O_pct basalt) (Na2O_pct sodic)" "cle (K2O_pct basalt) (K2O_pct potassic)"
    by (simp_all add: basalt_def limestone_def magnesian_def sodic_def potassic_def fl_eval)
  note t = synthetic_depends_on_four_oxides
  note c = conjunct2
  have g: "synthetic_results basalt = synthetic_results granite"
    using t [of basalt granite, THEN conjunct1] e by blast
  have ca: "column_le (synthetic_results basalt) (synthetic_results limestone) ''Ca+2''"
    using t [of basalt limestone, THEN c, THEN c, THEN c, THEN c, THEN c, THEN c, THEN conjunct1]
      f l by blast
  have mg: "column_le (synthetic_results basalt) (synthetic_results magnesian) ''Mg+2''"
    using t [of basalt magnesian, THEN c, THEN c, THEN c, THEN c, THEN c, THEN c, THEN c,
        THEN conjunct1] f l by blast
  have na: "column_le (synthetic_results basalt) (synthetic_results sodic) ''Na+''"
    using t [of basalt sodic, THEN c, THEN c, THEN c, THEN c, THEN c, THEN c, THEN c, THEN c,
        THEN conjunct1] f l by blast
  have k: "column_le (synthetic_results basalt) (synthetic_results potassic) ''K+''"
    using t [of basalt potassic, THEN c, THEN c, THEN c, THEN c, THEN c, THEN c, THEN c, THEN c,
        THEN c] f l by blast
  show ?thesis using d e f l g ca mg na k by (intro conjI)
qed

text \<open>
  C4. The database files tried are the listed paths up to and including the first one that
  loads (none when the engine cannot be created): a prefix of the list of seven distinct
  paths, so each is tried at most once and in list order. The step consists of the creation
  of the engine, these attempts, and then the package database exactly when the engine was
  created and all seven paths failed.
\<close>

theorem database_loading:
  "attempted (fst (init_engine e)) =
     (if engine_init e
      then takeWhile (\<lambda>f. \<not> load_database e f) database_paths @
        take 1 (dropWhile (\<lambda>f. \<not> load_database e f) database_paths)
      else []) \<and>
   prefix (attempted (fst (init_engine e))) database_paths \<and>
   distinct database_paths \<and> length database_paths = 7 \<and>
   fst (init_engine e) =
     [Begin InitSolver, EngineInit] @ map LoadDatabase (attempted (fst (init_engine e))) @
     (if engine_init e \<and> list_all (\<lambda>f. \<not> load_database e f) database_paths
      then [LoadPackageDatabase] else [])"
proof -
  have "prefix (attempted (fst (init_engine e))) database_paths"
  proof (cases "engine_init e")
    case True
    then show ?thesis by (simp only: init_engine_attempted if_True first_success_prefix)
  next
    case False
    then show ?thesis by (simp add: init_engine_attempted)
  qed
  then show ?thesis
    using init_engine_attempted [of e] init_engine_trace [of e] database_paths_distinct by blast
qed

theorem database_loading_witness:
  "attempted (fst (init_engine with_engine)) = take 5 database_paths \<and>
   load_database with_engine (database_paths ! 4) \<and>
   fst (init_engine with_engine) =
     [Begin InitSolver, EngineInit] @ map LoadDatabase (take 5 database_paths) \<and>
   attempted (fst (init_engine no_engine)) = [] \<and>
   attempted (fst (init_engine (no_engine\<lparr>engine_init := True\<rparr>))) = database_paths \<and>
   fst (init_engine (no_engine\<lparr>engine_init := True\<rparr>)) =
     [Begin InitSolver, EngineInit] @ map LoadDatabase database_paths @ [LoadPackageDatabase]"
  using database_loading [of with_engine] database_loading [of no_engine]
    database_loading [of "no_engine\<lparr>engine_init := True\<rparr>"]
  by (simp add: with_engine_def no_engine_def database_paths_def init_engine_def proj)




text \<open>
  C6. The seven oxides of the engine's input are the cells of the sample, a missing one replaced
  by 60, 5, 3, 3, 2, 5 and 15 (SiO2, CaO, MgO, Na2O, K2O, Fe2O3, Al2O3), and the five oxides the
  synthetic series reads get the same defaults; so filling the defaults into the sample first
  leaves no oxide missing and changes neither the input of the engine nor the synthetic table.
  Every cell of the table built from the engine's rows is the numeric conversion of the
  engine's value at that row and column, or NaN where the row is too short to have one, and a
  string that does not read as a number becomes NaN.
\<close>

theorem numeric_or_defaulted:
  "oxides s = \<lparr>SiO2 = cell_or (SiO2_pct s) (Num 60), CaO = cell_or (CaO_pct s) (Num 5),
      MgO = cell_or (MgO_pct s) (Num 3), Na2O = cell_or (Na2O_pct s) (Num 3),
      K2O = cell_or (K2O_pct s) (Num 2), Fe2O3 = cell_or (Fe2O3_pct s) (Num 5),
      Al2O3 = cell_or (Al2O3_pct s) (Num 15)\<rparr> \<and>
   (cao_pct s, mgo_pct s, sio2_pct s, na2o_pct s, k2o_pct s) =
     (cell_or (CaO_pct s) (Num 5), cell_or (MgO_pct s) (Num 3), cell_or (SiO2_pct s) (Num 60),
      cell_or (Na2O_pct s) (Num 3), cell_or (K2O_pct s) (Num 2)) \<and>
   (\<forall>c d. cell_or c (Num d) = (if c = NaN then Num d else c)) \<and>
   list_all notna (major_elements (fill_defaults s)) \<and>
   generate_advanced_phreeqc_input (fill_defaults s) = generate_advanced_phreeqc_input s \<and>
   synthetic_results (fill_defaults s) = synthetic_results s \<and>
   (make_frame parse columns data = Some df \<and> i < length columns \<and> j < length data \<longrightarrow>
      cell_at df (columns ! i) j =
        (if i < length (data ! j) then coerce parse (data ! j ! i) else NaN)) \<and>
   (parse t = None \<longrightarrow> coerce parse (RStr t) = NaN)"
proof -
  have 1: "oxides s = \<lparr>SiO2 = cell_or (SiO2_pct s) (Num 60), CaO = cell_or (CaO_pct s) (Num 5),
      MgO = cell_or (MgO_pct s) (Num 3), Na2O = cell_or (Na2O_pct s) (Num 3),
      K2O = cell_or (K2O_pct s) (Num 2), Fe2O3 = cell_or (Fe2O3_pct s) (Num 5),
      Al2O3 = cell_or (Al2O3_pct s) (Num 15)\<rparr>"
    by (simp add: oxides_def defaults_exact)
  have 2: "(cao_pct s, mgo_pct s, sio2_pct s, na2o_pct s, k2o_pct s) =
     (cell_or (CaO_pct s) (Num 5), cell_or (MgO_pct s) (Num 3), cell_or (SiO2_pct s) (Num 60),
      cell_or (Na2O_pct s) (Num 3), cell_or (K2O_pct s) (Num 2))"
    by (simp add: cao_pct_def mgo_pct_def sio2_pct_def na2o_pct_def k2o_pct_def defaults_exact)
  have n: "notna c = (c \<noteq> NaN)" for c by (cases c) simp_all
  have 0: "\<forall>c d. cell_or c (Num d) = (if c = NaN then Num d else c)"
    by (simp add: cell_or_def n)
  have 3: "list_all notna (major_elements (fill_defaults s))"
    by (simp add: major_elements_def fill_defaults_def cell_or_def)
  have 4: "generate_advanced_phreeqc_input (fill_defaults s) = generate_advanced_phreeqc_input s"
    by (simp add: generate_advanced_phreeqc_input_def oxides_fill_defaults) (simp add: fill_defaults_def)
  have 5: "synthetic_results (fill_defaults s) = synthetic_results s"
    by (simp add: synthetic_results_def ca_values_def mg_values_def na_values_def k_values_def
        cao_pct_def mgo_pct_def na2o_pct_def k2o_pct_def fill_defaults_def defaults_exact cell_or_def)
  have 6: "make_frame parse columns data = Some df \<and> i < length columns \<and> j < length data \<longrightarrow>
      cell_at df (columns ! i) j =
        (if i < length (data ! j) then coerce parse (data ! j ! i) else NaN)"
    using make_frame_cell by blast
  have 7: "parse t = None \<longrightarrow> coerce parse (RStr t) = NaN" by simp
  show ?thesis using 0 1 2 3 4 5 6 7 by blast
qed

theorem numeric_or_defaulted_witness:
  "MgO_pct incomplete = NaN \<and> Al2O3_pct incomplete = NaN \<and>
   MgO (oxides incomplete) = Num 3 \<and> Al2O3 (oxides incomplete) = Num 15 \<and>
   mgo_pct incomplete = Num 3 \<and>
   generate_advanced_phreeqc_input (fill_defaults incomplete) = generate_advanced_phreeqc_input incomplete \<and>
   synthetic_results (fill_defaults incomplete) = synthetic_results incomplete \<and>
   make_frame (\<lambda>t. None) [''pH'', ''m_Ca+2(mol/kgw)'', ''m_Mg+2(mol/kgw)'']
     [[RNum (Num 7), RNum (Num (1/1000)), RStr ''n/a''], [RNum (Num 8)]] =
     Some \<lparr>nrows = 2, cols = [(''pH'', [Num 7, Num 8]), (''m_Ca+2(mol/kgw)'', [Num (1/1000), NaN]),
       (''m_Mg+2(mol/kgw)'', [NaN, NaN])]\<rparr> \<and>
   cell_at \<lparr>nrows = 2, cols = [(''pH'', [Num 7, Num 8]), (''m_Ca+2(mol/kgw)'', [Num (1/1000), NaN]),
       (''m_Mg+2(mol/kgw)'', [NaN, NaN])]\<rparr> ''m_Mg+2(mol/kgw)'' 0 = NaN \<and>
   coerce (\<lambda>t. None) (RStr ''n/a'') = NaN"
proof -
  let ?cs = "[''pH'', ''m_Ca+2(mol/kgw)'', ''m_Mg+2(mol/kgw)'']"
  let ?data = "[[RNum (Num 7), RNum (Num (1/1000)), RStr ''n/a''], [RNum (Num 8)]]"
  let ?df = "\<lparr>nrows = 2, cols = [(''pH'', [Num 7, Num 8]), (''m_Ca+2(mol/kgw)'', [Num (1/1000), NaN]),
       (''m_Mg+2(mol/kgw)'', [NaN, NaN])]\<rparr>"
  have f: "make_frame (\<lambda>t. None) ?cs ?data = Some ?df"
    by (simp add: make_frame_def entry_def upt_rec)
  have i: "MgO_pct incomplete = NaN" "Al2O3_pct incomplete = NaN"
    by (simp_all add: incomplete_def basalt_def)
  note t = numeric_or_defaulted [where s = incomplete and parse = "\<lambda>t. None" and columns = ?cs
      and data = ?data and df = ?df and i = 2 and j = 0 and t = "''n/a''"]
  have "cell_at ?df (?cs ! 2) 0 = coerce (\<lambda>t. None) (?data ! 0 ! 2)"
    using t f by simp
  then have c: "cell_at ?df ''m_Mg+2(mol/kgw)'' 0 = NaN" by simp
  have o: "MgO (oxides incomplete) = Num 3" "Al2O3 (oxides incomplete) = Num 15"
    "mgo_pct incomplete = Num 3"
    using t i by simp_all
  show ?thesis using t f i c o by simp
qed

text \<open>
  C7. In every run the input files read are a prefix of the list majors, mineralogy, trace
  elements, and the files written are a subsequence of the list figure, report; the five file
  names are distinct. So each input file is read at most once, each output file is written at
  most once, and no input file is written.
\<close>

theorem files_once:
  "prefix (reads (fst (run e))) [majors_path, mineralogy_path, trace_path] \<and>
   subseq (writes (fst (run e))) [figure_path, report_path] \<and>
   distinct [majors_path, mineralogy_path, trace_path, figure_path, report_path]"
proof -
  have "distinct [majors_path, mineralogy_path, trace_path, figure_path, report_path]"
    by (simp add: majors_path_def mineralogy_path_def trace_path_def figure_path_def report_path_def)
  moreover have "prefix (reads (fst (run e))) [majors_path, mineralogy_path, trace_path]"
    by (simp add: run_reads_writes)
  ultimately show ?thesis using run_reads_writes(2) [of e] by blast
qed

theorem files_once_witness:
  "reads (fst (run no_engine)) = [majors_path, mineralogy_path, trace_path] \<and>
   writes (fst (run no_engine)) = [figure_path, report_path] \<and>
   reads (fst (run no_data)) = [majors_path] \<and> writes (fst (run no_data)) = []"
proof -
  have f: "snd (simulate no_engine (snd (init_engine no_engine)) basalt) = None"
    by (simp add: simulate_unavailable unavailable_def no_engine_def)
  have m: "majors_csv no_engine = Some [incomplete, basalt, granite]"
    by (simp add: no_engine_def)
  obtain r where r: "run no_engine =
    (fst (load_data no_engine) @ fst (init_engine no_engine) @
     fst (simulate no_engine (snd (init_engine no_engine)) basalt) @
     [Synthetic, Begin Statistics] @ visualize no_engine False (synthetic_results basalt) @
     [Begin WriteReport, WriteFile report_path], Completed r)"
    using run_fallback [OF m select_examples(1) f] by blast
  have v: "visualize no_engine False (synthetic_results basalt) = [Begin Plot, SaveFig figure_path]"
    by (simp add: visualize_def no_engine_def)
  have w: "writes (fst (run no_engine)) = [figure_path, report_path]"
    by (simp add: r v proj load_data_proj init_engine_proj simulate_proj)
  have "run no_data = ([Begin LoadInputs, ReadCsv majors_path], Exit 1)"
    by (simp add: run_shape load_data_def no_data_def no_engine_def)
  then have d: "reads (fst (run no_data)) = [majors_path]" "writes (fst (run no_data)) = []"
    by (simp_all add: proj)
  show ?thesis using files_once [of no_engine] w d m by (simp add: run_reads_writes)
qed

text \<open>
  C8. Let the majors file be read. If no row has all six oxides, the run consists of steps 1
  and 2 only and ends with exit status 1: the trace has no event of the simulation, of the
  figure or of the report. Otherwise the table splits into rows without complete data, a first
  complete row and the rest, and steps 4 to 7 are run for exactly that first complete row.
\<close>

theorem sample_selection:
  assumes "majors_csv e = Some majors"
  shows "(list_all (\<lambda>r. \<not> complete r) majors \<longrightarrow>
      run e = (fst (load_data e) @ fst (init_engine e), Exit 1) \<and>
      filter late (fst (run e)) = []) \<and>
    (\<not> list_all (\<lambda>r. \<not> complete r) majors \<longrightarrow>
      (\<exists>pre s post. majors = pre @ s # post \<and> list_all (\<lambda>r. \<not> complete r) pre \<and> complete s \<and>
         select_sample majors = Some s \<and>
         run e = (fst (load_data e) @ fst (init_engine e) @
                    fst (process e majors (snd (init_engine e)) s),
                  snd (process e majors (snd (init_engine e)) s))))"
proof (intro conjI impI)
  assume "list_all (\<lambda>r. \<not> complete r) majors"
  then have n: "select_sample majors = None" by (simp add: select_sample_None)
  then show "run e = (fst (load_data e) @ fst (init_engine e), Exit 1)"
    using assms by (simp add: run_shape)
  then show "filter late (fst (run e)) = []"
    by (simp add: load_data_proj init_engine_proj)
next
  assume "\<not> list_all (\<lambda>r. \<not> complete r) majors"
  then obtain s where s: "select_sample majors = Some s"
    using select_sample_None [of majors] by (cases "select_sample majors") auto
  then obtain pre post where "majors = pre @ s # post" "list_all (\<lambda>r. \<not> complete r) pre" "complete s"
    using select_sample_first [of majors s] by blast
  moreover have "run e = (fst (load_data e) @ fst (init_engine e) @
                    fst (process e majors (snd (init_engine e)) s),
                  snd (process e majors (snd (init_engine e)) s))"
    using assms s by (simp add: run_shape)
  ultimately show "\<exists>pre s post. majors = pre @ s # post \<and> list_all (\<lambda>r. \<not> complete r) pre \<and>
      complete s \<and> select_sample majors = Some s \<and>
      run e = (fst (load_data e) @ fst (init_engine e) @
                 fst (process e majors (snd (init_engine e)) s),
               snd (process e majors (snd (init_engine e)) s))"
    using s by blast
qed

theorem sample_selection_witness:
  "majors_csv no_complete_row = Some [incomplete, incomplete\<lparr>DDPD_ID := 5\<rparr>] \<and>
   list_all (\<lambda>r. \<not> complete r) [incomplete, incomplete\<lparr>DDPD_ID := 5\<rparr>] \<and>
   run no_complete_row = (fst (load_data no_complete_row) @ fst (init_engine no_complete_row), Exit 1) \<and>
   filter late (fst (run no_complete_row)) = [] \<and>
   majors_csv no_engine = Some [incomplete, basalt, granite] \<and>
   \<not> list_all (\<lambda>r. \<not> complete r) [incomplete, basalt, granite] \<and>
   select_sample [incomplete, basalt, granite] = Some basalt \<and>
   run no_engine = (fst (load_data no_engine) @ fst (init_engine no_engine) @
                      fst (process no_engine [incomplete, basalt, granite] (snd (init_engine no_engine)) basalt),
                    snd (process no_engine [incomplete, basalt, granite] (snd (init_engine no_engine)) basalt))"
proof -
  have m1: "majors_csv no_complete_row = Some [incomplete, incomplete\<lparr>DDPD_ID := 5\<rparr>]"
    by (simp add: no_complete_row_def no_engine_def)
  have a1: "list_all (\<lambda>r. \<not> complete r) [incomplete, incomplete\<lparr>DDPD_ID := 5\<rparr>]"
    by (simp add: complete_def incomplete_def)
  have m2: "majors_csv no_engine = Some [incomplete, basalt, granite]"
    by (simp add: no_engine_def)
  have a2: "\<not> list_all (\<lambda>r. \<not> complete r) [incomplete, basalt, granite]"
    by (simp add: complete_def basalt_def)
  show ?thesis
    using sample_selection [OF m1] sample_selection [OF m2] m1 a1 m2 a2 select_examples(1)
    by auto
qed

text \<open>
  C9. Whatever the sample, the synthetic results table has 7 rows, and its pH column holds the
  binary64 values of 5.6, 6.0, 6.4, 6.8, 7.2, 7.6, 8.0, a strictly increasing sequence. The
  indicators computed from it always exist, the pH change (final minus initial pH) is the same
  binary64 value for every sample, and the report built from them prints the pH evolution
  5.60, 8.00 and the change 2.40. So steps 4 to 7 of every run in which no simulation succeeds
  end with a report that shows this pH evolution.
\<close>

theorem synthetic_pH_change:
  "nrows (synthetic_results s) = 7 \<and>
   column (synthetic_results s) ''pH'' = Inr (map (\<lambda>v. Num (fl v)) [56/10, 6, 64/10, 68/10, 72/10, 76/10, 8]) \<and>
   sorted_wrt (<) (map fl [56/10, 6, 64/10, 68/10, 72/10, 76/10, 8]) \<and>
   (\<exists>k r. analysis (synthetic_results s) = Inr k \<and>
      pH_change k = Num (fsub (fl 8) (fl (56/10))) \<and>
      make_report majors s k = Inr r \<and>
      pH_evolution r = (Num (56/10), Num 8, Num (24/10))) \<and>
   (snd (simulate e u s) = None \<longrightarrow>
      (\<exists>r. snd (process e majors u s) = Completed r \<and>
         pH_evolution r = (Num (56/10), Num 8, Num (24/10))))"
proof -
  have 1: "nrows (synthetic_results s) = 7" by (simp add: synthetic_results_def)
  have 2: "column (synthetic_results s) ''pH'' =
      Inr (map (\<lambda>v. Num (fl v)) [56/10, 6, 64/10, 68/10, 72/10, 76/10, 8])"
    by (simp add: synthetic_columns pH_values_def)
  have 3: "sorted_wrt (<) (map fl [56/10, 6, 64/10, 68/10, 72/10, 76/10, 8])"
    using pH_values_eval by (simp add: pH_values_def)
  obtain k r where kr: "analysis (synthetic_results s) = Inr k"
    "pH_change k = Num (fsub (fl 8) (fl (56/10)))" "make_report majors s k = Inr r"
    "pH_evolution r = (Num (56/10), Num 8, Num (24/10))"
    using synthetic_report [of s majors] by blast
  have 5: "snd (simulate e u s) = None \<longrightarrow>
      (\<exists>r. snd (process e majors u s) = Completed r \<and>
         pH_evolution r = (Num (56/10), Num 8, Num (24/10)))"
  proof
    assume "snd (simulate e u s) = None"
    then have "results_of e u s = (fst (simulate e u s) @ [Synthetic], synthetic_results s, False)"
      by (rule results_of_fallback)
    then have "snd (process e majors u s) = Completed r"
      by (simp add: process_def kr)
    then show "\<exists>r. snd (process e majors u s) = Completed r \<and>
         pH_evolution r = (Num (56/10), Num 8, Num (24/10))"
      using kr(4) by blast
  qed
  show ?thesis using 1 2 3 5 kr by blast
qed

theorem synthetic_pH_change_witness:
  "snd (simulate no_engine True basalt) = None \<and>
   (\<exists>r. snd (process no_engine [incomplete, basalt, granite] True basalt) = Completed r \<and>
      pH_evolution r = (Num (56/10), Num 8, Num (24/10)))"
proof -
  have n: "snd (simulate no_engine True basalt) = None" by (simp add: simulate_def)
  show ?thesis
    using n synthetic_pH_change [where e = no_engine and u = True and s = basalt
        and majors = "[incomplete, basalt, granite]"]
    by blast
qed

text \<open>
  C10, as stated, fails at the second reaction step (row 1) of every synthetic table: there the
  alkalinity is the binary64 value of 0.00032, while the bicarbonate plus twice the carbonate of
  that row is smaller by \<open>1 / 2 ^ 64\<close>, one unit in the last place, when the sum is taken in
  binary64 arithmetic, and by \<open>15 / 2 ^ 68\<close> when it is taken exactly. The script computes the
  alkalinity from the series in mmol/L and converts each column to mol/L afterwards, and the
  division by 1000 does not commute with the rounded sum. The statement on the cation columns
  fails too, for a percentage that is non-negative but infinite: the weight of the first
  reaction step is zero, zero times infinity is NaN, and the column \<open>Ca+2\<close> is NaN followed by
  six infinities, which is not non-decreasing.
\<close>

theorem synthetic_alk_counterexample:
  "alk_excess (synthetic_results basalt) 1 = Some (1 / 2 ^ 64) \<and>
   alk_excess_exact (synthetic_results basalt) 1 = Some (15 / 2 ^ 68) \<and>
   cell_at (synthetic_results basalt) ''Alk'' 1 = Num (fl (32/100000)) \<and>
   cell_at (synthetic_results basalt) ''HCO3-'' 1 = Num (fl (3/10000)) \<and>
   cell_at (synthetic_results basalt) ''CO3-2'' 1 = Num (fl (1/100000)) \<and>
   CaO_pct infinite_lime = PInf \<and> complete infinite_lime \<and>
   column (synthetic_results infinite_lime) ''Ca+2'' = Inr [NaN, PInf, PInf, PInf, PInf, PInf, PInf] \<and>
   \<not> nondecreasing (synthetic_results infinite_lime) ''Ca+2''"
proof -
  have 1: "alk_excess (synthetic_results basalt) 1 = Some (1 / 2 ^ 64) \<and>
   alk_excess_exact (synthetic_results basalt) 1 = Some (15 / 2 ^ 68) \<and>
   cell_at (synthetic_results basalt) ''Alk'' 1 = Num (fl (32/100000)) \<and>
   cell_at (synthetic_results basalt) ''HCO3-'' 1 = Num (fl (3/10000)) \<and>
   cell_at (synthetic_results basalt) ''CO3-2'' 1 = Num (fl (1/100000))"
    by (simp add: alk_excess_def alk_excess_exact_def synthetic_columns carbonate_series_eval fl_eval)
  have 2: "CaO_pct infinite_lime = PInf \<and> complete infinite_lime"
    by (simp add: infinite_lime_def basalt_def complete_def)
  have 3: "\<not> nondecreasing (synthetic_results infinite_lime) ''Ca+2''"
    by (simp add: nondecreasing_def infinite_oxide_column)
  show ?thesis using 1 2 3 infinite_oxide_column by (intro conjI) simp_all
qed

text \<open>
  C10, amended. When each of the CaO, MgO, Na2O and K2O percentages of the sample is a finite
  non-negative value, or is missing and so defaulted, the columns \<open>Ca+2\<close>, \<open>Mg+2\<close>, \<open>Na+\<close> and
  \<open>K+\<close> of the synthetic table are non-decreasing over the 7 rows. Whatever the sample, the
  alkalinity equals the binary64 sum of the bicarbonate and twice the carbonate at rows 0, 2, 3,
  4, 5 and 6, and exceeds it by \<open>1 / 2 ^ 64\<close> at row 1.
\<close>

theorem synthetic_cations_nondecreasing:
  assumes "finite_nonneg (CaO_pct s) \<or> CaO_pct s = NaN"
    and "finite_nonneg (MgO_pct s) \<or> MgO_pct s = NaN"
    and "finite_nonneg (Na2O_pct s) \<or> Na2O_pct s = NaN"
    and "finite_nonneg (K2O_pct s) \<or> K2O_pct s = NaN"
  shows "nondecreasing (synthetic_results s) ''Ca+2'' \<and>
    nondecreasing (synthetic_results s) ''Mg+2'' \<and>
    nondecreasing (synthetic_results s) ''Na+'' \<and>
    nondecreasing (synthetic_results s) ''K+'' \<and>
    map (alk_excess (synthetic_results s')) [0, 1, 2, 3, 4, 5, 6] =
      [Some 0, Some (1 / 2 ^ 64), Some 0, Some 0, Some 0, Some 0, Some 0]"
  using assms ca_nondecreasing mg_nondecreasing na_nondecreasing k_nondecreasing
    alk_excess_synthetic by blast

theorem synthetic_cations_nondecreasing_witness:
  "finite_nonneg (CaO_pct basalt) \<and> finite_nonneg (MgO_pct basalt) \<and>
   finite_nonneg (Na2O_pct basalt) \<and> finite_nonneg (K2O_pct basalt) \<and>
   nondecreasing (synthetic_results basalt) ''Ca+2'' \<and>
   nondecreasing (synthetic_results basalt) ''Mg+2'' \<and>
   nondecreasing (synthetic_results basalt) ''Na+'' \<and>
   nondecreasing (synthetic_results basalt) ''K+'' \<and>
   MgO_pct incomplete = NaN \<and> nondecreasing (synthetic_results incomplete) ''Mg+2'' \<and>
   map (alk_excess (synthetic_results basalt)) [0, 1, 2, 3, 4, 5, 6] =
     [Some 0, Some (1 / 2 ^ 64), Some 0, Some 0, Some 0, Some 0, Some 0]"
proof -
  have h: "finite_nonneg (CaO_pct basalt)" "finite_nonneg (MgO_pct basalt)"
    "finite_nonneg (Na2O_pct basalt)" "finite_nonneg (K2O_pct basalt)"
    by (simp_all add: basalt_def fl_eval)
  have i: "CaO_pct incomplete = CaO_pct basalt" "MgO_pct incomplete = NaN"
    "Na2O_pct incomplete = Na2O_pct basalt" "K2O_pct incomplete = K2O_pct basalt"
    by (simp_all add: incomplete_def)
  show ?thesis
    using h i synthetic_cations_nondecreasing [of basalt basalt]
      synthetic_cations_nondecreasing [of incomplete basalt]
    by simp
qed

end
